theory Spec2Isabelle
  imports Complex_Main
begin

section \<open>Header normalizer (\<^verbatim>\<open>clean_column_name\<close>, upload/tasks.py)\<close>

text \<open>
  Python strings are modelled as HOL strings whose characters are the code points
  0..255. \<^verbatim>\<open>str.isspace\<close> holds in that range for the characters below; they
  are what \<^verbatim>\<open>str.split()\<close> and \<^verbatim>\<open>str.strip()\<close> treat as whitespace.
\<close>

definition LF :: char where
  "LF = CHR 0x0A"

definition whitespace_chars :: "char list" where
  "whitespace_chars =
     [CHR 0x09, CHR 0x0A, CHR 0x0B, CHR 0x0C, CHR 0x0D,
      CHR 0x1C, CHR 0x1D, CHR 0x1E, CHR 0x1F, CHR 0x20, CHR 0x85, CHR 0xA0]"

definition isspace :: "char \<Rightarrow> bool" where
  "isspace c = (c \<in> set whitespace_chars)"

text \<open>
  \<^verbatim>\<open>column_cleaning_regex = re.compile(r'\[.*?\]')\<close> and
  \<^verbatim>\<open>column_cleaning_regex.sub('', column_name)\<close>.

  The lazy pattern matches at an opening bracket exactly when a closing bracket follows
  before any line feed (the dot does not match a line feed), and then it ends at the
  first closing bracket. \<open>closes cs\<close> is that lookahead on the text after the
  opening bracket. \<open>regex_sub inside cs\<close> scans left to right: outside a match it
  copies characters, and an opening bracket without a match is copied like any other
  character; inside a match it drops everything up to and including the first closing
  bracket.
\<close>

fun closes :: "string \<Rightarrow> bool" where
  "closes [] = False"
| "closes (c # cs) =
     (if c = CHR '']'' then True else if c = LF then False else closes cs)"

fun regex_sub :: "bool \<Rightarrow> string \<Rightarrow> string" where
  "regex_sub inside [] = []"
| "regex_sub False (c # cs) =
     (if c = CHR ''['' \<and> closes cs then regex_sub True cs else c # regex_sub False cs)"
| "regex_sub True (c # cs) =
     (if c = CHR '']'' then regex_sub False cs else regex_sub True cs)"

text \<open>
  \<^verbatim>\<open>str.split()\<close> without arguments: the maximal runs of non-whitespace characters,
  in order. \<open>split_acc w cs\<close> carries the word read so far.
\<close>

fun split_acc :: "string \<Rightarrow> string \<Rightarrow> string list" where
  "split_acc w [] = (if w = [] then [] else [w])"
| "split_acc w (c # cs) =
     (if isspace c then (if w = [] then split_acc [] cs else w # split_acc [] cs)
      else split_acc (w @ [c]) cs)"

definition py_split :: "string \<Rightarrow> string list" where
  "py_split s = split_acc [] s"

definition py_strip :: "string \<Rightarrow> string" where
  "py_strip s = rev (dropWhile isspace (rev (dropWhile isspace s)))"

text \<open>
  \<^verbatim>\<open>
  def clean_column_name(column_name):
      cleaned_name = column_cleaning_regex.sub('', column_name)
      cleaned_name = ''.join(part for part in cleaned_name.split() if part)
      cleaned_name = ''.join(char for char in cleaned_name if char not in ['.', '_']).strip()
      return cleaned_name
  \<close>
\<close>

definition clean_column_name :: "string \<Rightarrow> string" where
  "clean_column_name column_name =
     (let cleaned_name = regex_sub False column_name;
          cleaned_name = concat (filter (\<lambda>part. part \<noteq> []) (py_split cleaned_name));
          cleaned_name = py_strip (filter (\<lambda>char. char \<notin> set [CHR ''.'', CHR ''_'']) cleaned_name)
      in cleaned_name)"


section \<open>Values, data frames and collaborators\<close>

text \<open>
  The values a data-frame cell or a field of an output record can hold: Python's
  \<^verbatim>\<open>None\<close>, the missing-value markers \<^verbatim>\<open>NaN\<close> and \<^verbatim>\<open>pd.NaT\<close>, a text, a number
  (a finite float or integer of a numeric column, as the rational it denotes), a Python
  integer (the bank code), a timestamp, and the data frame object itself (the
  conversion helpers return the frame they were given).
\<close>

datatype pyval = PNone | NaN | NaT | Str string | Num rat | IntV int | Timestamp int | Frame

datatype py_error = AttributeError | KeyError | ValueError

text \<open>
  A data frame: the column labels in order, and the rows, each the list of its cells in
  column order. The reader decodes every file with \<^verbatim>\<open>dtype=str\<close>, so the cells of a
  decoded chunk are texts or \<^verbatim>\<open>NaN\<close>.
\<close>

record frame =
  columns :: "string list"
  rows :: "pyval list list"

definition rectangular :: "frame \<Rightarrow> bool" where
  "rectangular df = list_all (\<lambda>row. length row = length (columns df)) (rows df)"

type_synonym canon = "(string \<times> pyval) list"

text \<open>
  The published result slot (\<^verbatim>\<open>cache\<close>, key \<^verbatim>\<open>latest_transaction_results\<close>, as the
  pair of \<^verbatim>\<open>total_successful\<close> and \<^verbatim>\<open>total_failed\<close>) and the stored records.
\<close>

record world =
  cache :: "(nat \<times> nat) option"
  db :: "canon list"

text \<open>
  What the pipeline calls outside this repository's sources:
  \<^item> \<open>to_numeric\<close>: \<^verbatim>\<open>pd.to_numeric(..., errors='coerce')\<close> on one text, \<open>None\<close>
    where the text does not parse;
  \<^item> \<open>to_datetime\<close>: \<^verbatim>\<open>pd.to_datetime(..., errors='coerce')\<close> on one cell, given the
    whole column (the format is inferred from the column), \<open>None\<close> where it does not
    parse;
  \<^item> \<open>bulk_create_ok\<close>: whether \<^verbatim>\<open>Transaction.bulk_create_transactions\<close>, run inside
    \<^verbatim>\<open>transaction.atomic()\<close> on the stored records and a batch, returns (\<open>True\<close>) or
    raises (\<open>False\<close>).
\<close>

record env =
  to_numeric :: "string \<Rightarrow> rat option"
  to_datetime :: "pyval list \<Rightarrow> pyval \<Rightarrow> int option"
  bulk_create_ok :: "canon list \<Rightarrow> canon list \<Rightarrow> bool"

text \<open>
  Modelled from the spec: \<^verbatim>\<open>Transaction.bulk_create_transactions\<close> (upload/models.py is
  not among the sources) is the bulk insert of section 6, "accepting an ordered sequence
  of CanonicalRecord and returning success or a failure signal for the whole batch,
  executed under an atomic transaction boundary": either the whole batch is stored, after
  the records already there, or nothing is.
\<close>

definition bulk_create_transactions :: "env \<Rightarrow> canon list \<Rightarrow> canon list \<Rightarrow> canon list option" where
  "bulk_create_transactions L stored batch =
     (if bulk_create_ok L stored batch then Some (stored @ batch) else None)"

subsection \<open>Frame operations\<close>

text \<open>\<^verbatim>\<open>row.get(label)\<close>: the cell under the label, \<^verbatim>\<open>None\<close> when the row has no such label.\<close>

definition row_get :: "string list \<Rightarrow> pyval list \<Rightarrow> string \<Rightarrow> pyval" where
  "row_get cols row label = (case map_of (zip cols row) label of Some v \<Rightarrow> v | None \<Rightarrow> PNone)"

text \<open>\<^verbatim>\<open>df[label]\<close>, read: the cells of a column, one per row.\<close>

definition column_cells :: "frame \<Rightarrow> string \<Rightarrow> pyval list" where
  "column_cells df label = map (\<lambda>row. row_get (columns df) row label) (rows df)"

fun upd_cells :: "string \<Rightarrow> (pyval \<Rightarrow> pyval) \<Rightarrow> string list \<Rightarrow> pyval list \<Rightarrow> pyval list" where
  "upd_cells label f (l # ls) (v # vs) = (if l = label then f v else v) # upd_cells label f ls vs"
| "upd_cells label f ls vs = vs"

text \<open>\<^verbatim>\<open>df[label] = f(df[label])\<close> for a cell-wise \<open>f\<close>.\<close>

definition map_column :: "(pyval \<Rightarrow> pyval) \<Rightarrow> string \<Rightarrow> frame \<Rightarrow> frame" where
  "map_column f label df = df\<lparr>rows := map (upd_cells label f (columns df)) (rows df)\<rparr>"

text \<open>
  \<^verbatim>\<open>df[label] = values\<close>: the column is replaced when the label exists, and appended as
  the last column otherwise.
\<close>

definition assign_column :: "string \<Rightarrow> pyval list \<Rightarrow> frame \<Rightarrow> frame" where
  "assign_column label vals df =
     (if label \<in> set (columns df)
      then df\<lparr>rows := map2 (\<lambda>row v. upd_cells label (\<lambda>_. v) (columns df) row) (rows df) vals\<rparr>
      else df\<lparr>columns := columns df @ [label],
              rows := map2 (\<lambda>row v. row @ [v]) (rows df) vals\<rparr>)"

text \<open>\<^verbatim>\<open>df.rename(columns=column_mapping, inplace=True)\<close>.\<close>

definition rename_label :: "(string \<times> string) list \<Rightarrow> string \<Rightarrow> string" where
  "rename_label column_mapping label =
     (case map_of column_mapping label of Some target \<Rightarrow> target | None \<Rightarrow> label)"

definition rename :: "(string \<times> string) list \<Rightarrow> frame \<Rightarrow> frame" where
  "rename column_mapping df = df\<lparr>columns := map (rename_label column_mapping) (columns df)\<rparr>"

section \<open>Type coercers\<close>

text \<open>
  \<^verbatim>\<open>
  def convert_payable_to_float(df, column_name):
      df[column_name] = pd.to_numeric(df[column_name].str.replace(',', ''), errors='coerce')
      return df
  \<close>
  \<^verbatim>\<open>.str.replace\<close> gives \<^verbatim>\<open>NaN\<close> for a cell that is not a text, and \<^verbatim>\<open>to_numeric\<close>
  keeps \<^verbatim>\<open>NaN\<close>.
\<close>

definition str_replace_comma :: "pyval \<Rightarrow> pyval" where
  "str_replace_comma v = (case v of Str s \<Rightarrow> Str (filter (\<lambda>c. c \<noteq> CHR '','') s) | _ \<Rightarrow> NaN)"

definition cell_to_numeric :: "env \<Rightarrow> pyval \<Rightarrow> pyval" where
  "cell_to_numeric L v =
     (case v of
        Str s \<Rightarrow> (case to_numeric L s of Some x \<Rightarrow> Num x | None \<Rightarrow> NaN)
      | Num x \<Rightarrow> Num x
      | _ \<Rightarrow> NaN)"

definition coerce_amount :: "env \<Rightarrow> pyval \<Rightarrow> pyval" where
  "coerce_amount L v = cell_to_numeric L (str_replace_comma v)"

text \<open>
  The assignment \<^verbatim>\<open>df[column_name] = ...\<close> of the function, on a frame where the label
  names one column.
\<close>

definition to_numeric_column :: "env \<Rightarrow> frame \<Rightarrow> string \<Rightarrow> frame" where
  "to_numeric_column L df column_name = map_column (coerce_amount L) column_name df"

text \<open>
  \<^verbatim>\<open>df[column_name]\<close> raises \<^verbatim>\<open>KeyError\<close> for a label the frame does not have. For a
  label that several columns carry it is a frame, not a column, and a frame has no
  \<^verbatim>\<open>.str\<close>: \<^verbatim>\<open>AttributeError\<close>.
\<close>

definition convert_payable_to_float :: "env \<Rightarrow> frame \<Rightarrow> string \<Rightarrow> py_error + frame" where
  "convert_payable_to_float L df column_name =
     (if column_name \<notin> set (columns df) then Inl KeyError
      else if 1 < count_list (columns df) column_name then Inl AttributeError
      else Inr (to_numeric_column L df column_name))"

text \<open>
  \<^verbatim>\<open>
  def convert_column_to_datetime(df, column_name):
      df[column_name] = pd.to_datetime(df[column_name], errors='coerce')
      ...                       # logging of the rows that became NaT
      return df
  \<close>
  A missing cell becomes \<^verbatim>\<open>NaT\<close>, a timestamp stays; every other cell is parsed.
\<close>

definition cell_to_datetime :: "env \<Rightarrow> pyval list \<Rightarrow> pyval \<Rightarrow> pyval" where
  "cell_to_datetime L col v =
     (case v of
        PNone \<Rightarrow> NaT
      | NaN \<Rightarrow> NaT
      | NaT \<Rightarrow> NaT
      | Timestamp t \<Rightarrow> Timestamp t
      | _ \<Rightarrow> (case to_datetime L col v of Some t \<Rightarrow> Timestamp t | None \<Rightarrow> NaT))"

definition to_datetime_column :: "env \<Rightarrow> frame \<Rightarrow> string \<Rightarrow> frame" where
  "to_datetime_column L df column_name =
     map_column (cell_to_datetime L (column_cells df column_name)) column_name df"

text \<open>
  \<^verbatim>\<open>df[column_name]\<close> raises \<^verbatim>\<open>KeyError\<close> for a label the frame does not have. For a
  label that several columns carry it is a frame, and \<^verbatim>\<open>pd.to_datetime\<close> of a frame
  without the columns \<^verbatim>\<open>year\<close>, \<^verbatim>\<open>month\<close>, \<^verbatim>\<open>day\<close> raises \<^verbatim>\<open>ValueError\<close>.
\<close>

definition convert_column_to_datetime :: "env \<Rightarrow> frame \<Rightarrow> string \<Rightarrow> py_error + frame" where
  "convert_column_to_datetime L df column_name =
     (if column_name \<notin> set (columns df) then Inl KeyError
      else if 1 < count_list (columns df) column_name then Inl ValueError
      else Inr (to_datetime_column L df column_name))"


section \<open>Schema registry\<close>

text \<open>\<^verbatim>\<open>BANK_CODE_MAPPING\<close> and \<^verbatim>\<open>BANK_MAPPINGS\<close>, as the source lists them.\<close>

definition BANK_CODE_MAPPING :: "(string \<times> int) list" where
  "BANK_CODE_MAPPING = [(''hdfc'', 101), (''icici'', 102), (''karur_vysya'', 40)]"

record schema_entry =
  entry_columns :: "string list"
  column_mapping :: "(string \<times> string) list"

definition karur_vysya_booking :: schema_entry where
  "karur_vysya_booking =
     \<lparr>entry_columns = [''TXN DATE'', ''IRCTC ORDER NO.'', ''BANK BOOKING REF.NO.'',
                        ''BOOKING AMOUNT'', ''CREDITED ON''],
      column_mapping = [(''IRCTCORDERNO'', ''Order_Id''),
                        (''BANKBOOKINGREFNO'', ''Bank_Ref_id''),
                        (''BOOKINGAMOUNT'', ''Payable_Merchant''),
                        (''TXNDATE'', ''Transaction_Date''),
                        (''CREDITEDON'', ''Settlement_Date'')]\<rparr>"

definition karur_vysya_refund :: schema_entry where
  "karur_vysya_refund =
     \<lparr>entry_columns = [''REFUND DATE'', ''IRCTC ORDER NO.'', ''BANK BOOKING REF.NO.'',
                        ''BANK REFUND REF.NO.'', ''REFUND AMOUNT'', ''DEBITED ON''],
      column_mapping = [(''IRCTCORDERNO'', ''Order_Id''),
                        (''REFUNDAMOUNT'', ''Payable_Merchant''),
                        (''DEBITEDON'', ''Settlement_Date''),
                        (''REFUNDDATE'', ''Transaction_Date''),
                        (''BANKBOOKINGREFNO'', ''Bank_Ref_id''),
                        (''BANKREFUNDREFNO'', ''Refund_Order_Id'')]\<rparr>"

definition icici_both :: schema_entry where
  "icici_both =
     \<lparr>entry_columns = [''POST DATE'', ''FT NO.'', ''SESSION ID [ASPD]'', ''ARN NO'', ''MID'',
                        ''TRANSACTION DATE'', ''NET AMT'', ''CARD NUMBER'', ''CARD TYPE'', ''TID''],
      column_mapping = [(''TRANSACTIONDATE'', ''Transaction_Date''),
                        (''SESSIONID'', ''Order_Id''),
                        (''FTNO'', ''Transaction_Id''),
                        (''ARNNO'', ''Arn_No''),
                        (''MID'', ''MID''),
                        (''POSTDATE'', ''Settlement_Date''),
                        (''NETAMT'', ''Payable_Merchant''),
                        (''CARDNUMBER'', ''Card_No''),
                        (''CARDTYPE'', ''Card_type''),
                        (''TID'', ''Tid'')]\<rparr>"

definition BANK_MAPPINGS :: "(string \<times> (string \<times> schema_entry) list) list" where
  "BANK_MAPPINGS =
     [(''karur_vysya'', [(''booking'', karur_vysya_booking), (''refund'', karur_vysya_refund)]),
      (''icici'', [(''both'', icici_both)])]"

text \<open>
  Lines 174 to 182 of \<^verbatim>\<open>process_dataframe_chunk\<close>:
  \<^verbatim>\<open>
  bank_mapping = BANK_MAPPINGS.get(bank_name, {})
  if transaction_type in bank_mapping:
      columns_mapping = bank_mapping[transaction_type]
  elif 'both' in bank_mapping:
      columns_mapping = bank_mapping['both']
  else:
      logger.error(...)
      return
  \<close>
  \<open>None\<close> is the last branch.
\<close>

definition resolve :: "string \<Rightarrow> string \<Rightarrow> schema_entry option" where
  "resolve bank_name transaction_type =
     (let bank_mapping = (case map_of BANK_MAPPINGS bank_name of Some m \<Rightarrow> m | None \<Rightarrow> [])
      in if transaction_type \<in> fst ` set bank_mapping then map_of bank_mapping transaction_type
         else if ''both'' \<in> fst ` set bank_mapping then map_of bank_mapping ''both''
         else None)"

section \<open>Row projector (\<^verbatim>\<open>process_transactions\<close>)\<close>

definition datetime_fields :: "string list" where
  "datetime_fields = [''Transaction_Date'', ''Settlement_Date'', ''Refund_Request_Date'',
                      ''Credit_Debit_Date'', ''File_upload_Date'']"

text \<open>\<^verbatim>\<open>transaction_data[field] = value\<close> on a dictionary kept as an association list.\<close>

definition dict_set :: "string \<Rightarrow> pyval \<Rightarrow> canon \<Rightarrow> canon" where
  "dict_set field value d = map (\<lambda>(k, v). if k = field then (k, value) else (k, v)) d"

text \<open>
  \<^verbatim>\<open>
  def handle_nat_in_datetime_fields(transaction_data):
      datetime_fields = [...]
      for field in datetime_fields:
          if transaction_data[field] is pd.NaT:
              logger.warning(...)
              transaction_data[field] = None
  \<close>
  Subscripting a dictionary with a key it does not have raises \<^verbatim>\<open>KeyError\<close>.
\<close>

fun handle_nat_loop :: "string list \<Rightarrow> canon \<Rightarrow> py_error + canon" where
  "handle_nat_loop [] transaction_data = Inr transaction_data"
| "handle_nat_loop (field # rest) transaction_data =
     (case map_of transaction_data field of
        None \<Rightarrow> Inl KeyError
      | Some v \<Rightarrow>
          handle_nat_loop rest
            (if v = NaT then dict_set field PNone transaction_data else transaction_data))"

definition handle_nat_in_datetime_fields :: "canon \<Rightarrow> py_error + canon" where
  "handle_nat_in_datetime_fields transaction_data = handle_nat_loop datetime_fields transaction_data"

definition banks_with_mid_override :: "string list" where
  "banks_with_mid_override = [''hdfc'', ''icici'', ''indus'']"

text \<open>
  Six entries of the record are \<^verbatim>\<open>convert_payable_to_float(df_chunk, label) if label in
  df_chunk else None\<close>: the conversion runs on the whole column and the entry is the frame
  itself. \<^verbatim>\<open>.str\<close> raises \<^verbatim>\<open>AttributeError\<close> on a column that is already numeric, which
  is what the column is from the second row on. \<open>numeric\<close> lists the labels these
  conversions have made numeric so far; the columns they find are text, as the reader
  decodes them, the first time. The three entries with \<^verbatim>\<open>convert_column_to_datetime\<close>
  do not raise when repeated.
\<close>

definition frame_float_fields :: "string list" where
  "frame_float_fields = [''Gross_Amount'', ''Aggregator_Com'', ''Acquirer_Comm'',
                         ''Payout_from_Nodal'', ''Intl_Amount'', ''Domestic_Amount'']"

fun frame_conversions :: "string list \<Rightarrow> string list \<Rightarrow> string list \<Rightarrow> py_error + string list" where
  "frame_conversions cols numeric [] = Inr numeric"
| "frame_conversions cols numeric (label # labels) =
     (if label \<in> set cols then
        (if label \<in> set numeric then Inl AttributeError
         else frame_conversions cols (label # numeric) labels)
      else frame_conversions cols numeric labels)"

text \<open>The dictionary display of lines 232 to 280, entry by entry.\<close>

definition transaction_data_of ::
  "string list \<Rightarrow> string \<Rightarrow> string \<Rightarrow> int \<Rightarrow> pyval list \<Rightarrow> canon" where
  "transaction_data_of cols bank_name transaction_type bank_id row =
     (let get = row_get cols row;
          in_frame = (\<lambda>label. if label \<in> set cols then Frame else PNone)
      in [
         (''Transaction_type'', Str transaction_type),
         (''Merchant_Name'', get ''Merchant_Name''),
         (''MID'', (if bank_name \<in> set banks_with_mid_override then get ''MID'' else IntV bank_id)),
         (''Transaction_Id'', get ''Transaction_Id''),
         (''Order_Id'', get ''Order_Id''),
         (''Transaction_Date'', get ''Transaction_Date''),
         (''Settlement_Date'', get ''Settlement_Date''),
         (''Refund_Request_Date'', in_frame ''Refund_Request_Date''),
         (''Gross_Amount'', in_frame ''Gross_Amount''),
         (''Aggregator_Com'', in_frame ''Aggregator_Com''),
         (''Acquirer_Comm'', in_frame ''Acquirer_Comm''),
         (''Payable_Merchant'', get ''Payable_Merchant''),
         (''Payout_from_Nodal'', in_frame ''Payout_from_Nodal''),
         (''BankName_Receive_Funds'', get ''BankName_Receive_Funds''),
         (''Nodal_Account_No'', get ''Nodal_Account_No''),
         (''Aggregator_Name'', get ''Aggregator_Name''),
         (''Acquirer_Name'', get ''Acquirer_Name''),
         (''Refund_Flag'', get ''Refund_Flag''),
         (''Payments_Type'', get ''Payments_Type''),
         (''MOP_Type'', get ''MOP_Type''),
         (''Credit_Debit_Date'', in_frame ''Credit_Debit_Date''),
         (''Bank_Name'', Str bank_name),
         (''Refund_Order_Id'', get ''Refund_Order_Id''),
         (''Acq_Id'', get ''Acq_Id''),
         (''Approve_code'', get ''Approve_code''),
         (''Arn_No'', get ''Arn_No''),
         (''Card_No'', get ''Card_No''),
         (''Tid'', get ''Tid''),
         (''Remarks'', get ''Remarks''),
         (''Bank_Ref_id'', get ''Bank_Ref_id''),
         (''File_upload_Date'', in_frame ''File_upload_Date''),
         (''User_name'', get ''User_name''),
         (''Recon_Status'', get ''Recon_Status''),
         (''Mpr_Summary_Trans'', get ''Mpr_Summary_Trans''),
         (''Merchant_code'', get ''Merchant_code''),
         (''Rec_Fmt'', get ''Rec_Fmt''),
         (''Card_type'', get ''Card_type''),
         (''Intl_Amount'', in_frame ''Intl_Amount''),
         (''Domestic_Amount'', in_frame ''Domestic_Amount''),
         (''UDF1'', PNone),
         (''UDF2'', PNone),
         (''UDF3'', PNone),
         (''UDF4'', PNone),
         (''UDF5'', PNone),
         (''UDF6'', PNone),
         (''GST_Number'', get ''GST_Number''),
         (''Credit_Debit_Amount'', get ''CREDIT_DEBIT_AMOUNT'')])"

definition canonical_fields :: "string list" where
  "canonical_fields =
     [''Transaction_type'', ''Merchant_Name'', ''MID'', ''Transaction_Id'', ''Order_Id'',
      ''Transaction_Date'', ''Settlement_Date'', ''Refund_Request_Date'',
      ''Gross_Amount'', ''Aggregator_Com'', ''Acquirer_Comm'', ''Payable_Merchant'',
      ''Payout_from_Nodal'', ''BankName_Receive_Funds'', ''Nodal_Account_No'',
      ''Aggregator_Name'', ''Acquirer_Name'', ''Refund_Flag'', ''Payments_Type'',
      ''MOP_Type'', ''Credit_Debit_Date'', ''Bank_Name'', ''Refund_Order_Id'', ''Acq_Id'',
      ''Approve_code'', ''Arn_No'', ''Card_No'', ''Tid'', ''Remarks'', ''Bank_Ref_id'',
      ''File_upload_Date'', ''User_name'', ''Recon_Status'', ''Mpr_Summary_Trans'',
      ''Merchant_code'', ''Rec_Fmt'', ''Card_type'', ''Intl_Amount'', ''Domestic_Amount'',
      ''UDF1'', ''UDF2'', ''UDF3'', ''UDF4'', ''UDF5'', ''UDF6'', ''GST_Number'',
      ''Credit_Debit_Amount'']"

record loop_state =
  bulk_data_transactions :: "canon list"
  success_count :: nat
  fail_count :: nat
  numeric :: "string list"

text \<open>
  The counters and the batch before the first row (lines 212, 222 and 223); no column has
  been converted inside the loop yet.
\<close>

definition loop_start :: loop_state where
  "loop_start = \<lparr>bulk_data_transactions = [], success_count = 0, fail_count = 0, numeric = []\<rparr>"

text \<open>
  The loop \<^verbatim>\<open>for index, row in df_chunk.iterrows()\<close> of lines 225 to 286. The rows are
  those of the frame as it was when the loop started.
\<close>

fun rows_loop ::
  "string list \<Rightarrow> string \<Rightarrow> string \<Rightarrow> int \<Rightarrow> pyval list list \<Rightarrow> loop_state \<Rightarrow> py_error + loop_state" where
  "rows_loop cols bank_name transaction_type bank_id [] st = Inr st"
| "rows_loop cols bank_name transaction_type bank_id (row # rest) st =
     (if transaction_type \<notin> set [''booking'', ''refund'', ''both''] then
        rows_loop cols bank_name transaction_type bank_id rest
          (st\<lparr>fail_count := fail_count st + 1\<rparr>)
      else
        (case frame_conversions cols (numeric st) frame_float_fields of
           Inl e \<Rightarrow> Inl e
         | Inr numeric' \<Rightarrow>
            (case handle_nat_in_datetime_fields
                    (transaction_data_of cols bank_name transaction_type bank_id row) of
               Inl e \<Rightarrow> Inl e
             | Inr transaction_data \<Rightarrow>
                 rows_loop cols bank_name transaction_type bank_id rest
                   (st\<lparr>bulk_data_transactions := bulk_data_transactions st @ [transaction_data],
                       success_count := success_count st + 1,
                       numeric := numeric'\<rparr>))))"

text \<open>
  \<^verbatim>\<open>process_transactions\<close>: the bank code lookup, the loop, the commit of lines 288 to
  298 and the publication of lines 304 to 310. The function returns \<^verbatim>\<open>None\<close> for a
  bank without a code and the result dictionary otherwise; \<open>Inl\<close> is an exception that
  leaves the function.
\<close>

definition process_transactions ::
  "env \<Rightarrow> frame \<Rightarrow> string \<Rightarrow> string \<Rightarrow> world \<Rightarrow> py_error + ((nat \<times> nat) option \<times> world)" where
  "process_transactions L df_chunk bank_name transaction_type w =
     (case map_of BANK_CODE_MAPPING bank_name of
        None \<Rightarrow> Inr (None, w)
      | Some bank_id \<Rightarrow>
         (case rows_loop (columns df_chunk) bank_name transaction_type bank_id (rows df_chunk)
                 loop_start of
            Inl e \<Rightarrow> Inl e
          | Inr st \<Rightarrow>
             (let batch = bulk_data_transactions st;
                  (fails, stored) =
                     (if batch \<noteq> [] then
                        (case bulk_create_transactions L (db w) batch of
                           Some stored' \<Rightarrow> (fail_count st, stored')
                         | None \<Rightarrow> (fail_count st + length batch, db w))
                      else (fail_count st, db w));
                  results = (success_count st, fails)
              in Inr (Some results, w\<lparr>cache := Some results, db := stored\<rparr>))))"

section \<open>Chunk processor (\<^verbatim>\<open>process_dataframe_chunk\<close>)\<close>

text \<open>\<^verbatim>\<open>df_chunk['Payable_Merchant'].fillna(0)\<close>, cell by cell.\<close>

definition fillna0 :: "pyval \<Rightarrow> pyval" where
  "fillna0 v = (case v of NaN \<Rightarrow> Num 0 | _ \<Rightarrow> v)"

text \<open>
  \<^verbatim>\<open>lambda x: 'CREDIT' if x > 0 else 'DEBIT' if x < 0 else None\<close> on a cell of the
  numeric column; both comparisons are false for \<^verbatim>\<open>NaN\<close>.
\<close>

definition credit_debit :: "pyval \<Rightarrow> pyval" where
  "credit_debit x =
     (case x of
        Num a \<Rightarrow> (if a > 0 then Str ''CREDIT'' else if a < 0 then Str ''DEBIT'' else PNone)
      | _ \<Rightarrow> PNone)"

text \<open>
  The body of \<^verbatim>\<open>process_dataframe_chunk\<close> after the header check succeeded (lines 188 to
  203): renaming, the two date conversions, the amount conversion and, for
  \<^verbatim>\<open>icici\<close>, the derived column.
\<close>

definition prepare :: "env \<Rightarrow> schema_entry \<Rightarrow> string \<Rightarrow> frame \<Rightarrow> py_error + frame" where
  "prepare L columns_mapping bank_name df_chunk =
     (let df_chunk = rename (column_mapping columns_mapping) df_chunk
      in case (if ''Transaction_Date'' \<in> set (columns df_chunk)
               then convert_column_to_datetime L df_chunk ''Transaction_Date''
               else Inr df_chunk) of
           Inl e \<Rightarrow> Inl e
         | Inr df_chunk \<Rightarrow>
            (case (if ''Settlement_Date'' \<in> set (columns df_chunk)
                   then convert_column_to_datetime L df_chunk ''Settlement_Date''
                   else Inr df_chunk) of
               Inl e \<Rightarrow> Inl e
             | Inr df_chunk \<Rightarrow>
                (if ''Payable_Merchant'' \<in> set (columns df_chunk) then
                   (case convert_payable_to_float L df_chunk ''Payable_Merchant'' of
                      Inl e \<Rightarrow> Inl e
                    | Inr df_chunk \<Rightarrow>
                       (if bank_name = ''icici'' then
                          (let df_chunk = map_column fillna0 ''Payable_Merchant'' df_chunk
                           in Inr (assign_column ''CREDIT_DEBIT_AMOUNT''
                                     (map credit_debit (column_cells df_chunk ''Payable_Merchant''))
                                     df_chunk))
                        else Inr df_chunk))
                 else Inr df_chunk)))"

text \<open>
  \<^verbatim>\<open>process_dataframe_chunk\<close> returns nothing on every path; what it does is the change
  of the result slot and of the stored records. On the two early exits (no schema entry,
  a required header missing) it only logs. An exception of a conversion or of
  \<^verbatim>\<open>process_transactions\<close> leaves the function (\<open>Inl\<close>).
\<close>

definition process_dataframe_chunk ::
  "env \<Rightarrow> frame \<Rightarrow> string \<Rightarrow> string \<Rightarrow> world \<Rightarrow> py_error + world" where
  "process_dataframe_chunk L df_chunk bank_name transaction_type w =
     (let cleaned_columns = map clean_column_name (columns df_chunk);
          df_chunk = df_chunk\<lparr>columns := cleaned_columns\<rparr>
      in case resolve bank_name transaction_type of
           None \<Rightarrow> Inr w
         | Some columns_mapping \<Rightarrow>
            (let expected_columns = map clean_column_name (entry_columns columns_mapping)
             in if list_all (\<lambda>col. col \<in> set (columns df_chunk)) expected_columns then
                  (case prepare L columns_mapping bank_name df_chunk of
                     Inl e \<Rightarrow> Inl e
                   | Inr df_chunk \<Rightarrow>
                      (case process_transactions L df_chunk bank_name transaction_type w of
                         Inl e \<Rightarrow> Inl e
                       | Inr (results, w') \<Rightarrow> Inr w'))
                else Inr w))"


section \<open>Notions used by the theorems\<close>

text \<open>A character that survives the normalizer when it stands outside a bracketed part.\<close>

definition kept :: "char \<Rightarrow> bool" where
  "kept c = (\<not> isspace c \<and> c \<noteq> CHR ''.'' \<and> c \<noteq> CHR ''_'')"

text \<open>
  Two raw headers that differ only in formatting: a dot or an underscore anywhere, a
  whitespace character other than a line feed anywhere, a line feed at the end or after a
  prefix that leaves no opening bracket behind, and a bracketed suffix whose content has
  no closing bracket and no line feed, after a header that leaves no opening bracket
  behind.
\<close>

inductive header_variant :: "string \<Rightarrow> string \<Rightarrow> bool" where
  punct: "c = CHR ''.'' \<or> c = CHR ''_'' \<Longrightarrow> header_variant (xs @ ys) (xs @ c # ys)"
| space: "isspace c \<Longrightarrow> c \<noteq> LF \<Longrightarrow> header_variant (xs @ ys) (xs @ c # ys)"
| line_feed: "CHR ''['' \<notin> set (regex_sub False xs) \<Longrightarrow> header_variant (xs @ ys) (xs @ LF # ys)"
| line_feed_end: "header_variant xs (xs @ [LF])"
| suffix: "CHR ''['' \<notin> set (regex_sub False h) \<Longrightarrow> CHR '']'' \<notin> set t \<Longrightarrow> LF \<notin> set t \<Longrightarrow>
           header_variant h (h @ CHR ''['' # t @ [CHR '']''])"
| same: "header_variant h h"
| sym: "header_variant h1 h2 \<Longrightarrow> header_variant h2 h1"
| trans: "header_variant h1 h2 \<Longrightarrow> header_variant h2 h3 \<Longrightarrow> header_variant h1 h3"

text \<open>
  The labels of a chunk after normalization and renaming under a schema entry. Two raw
  headers can end under one label (\<^verbatim>\<open>TXN DATE\<close> and \<^verbatim>\<open>TXN_DATE\<close>); a lookup by a
  repeated label gives several cells, and the conversions raise on it. A data frame has
  one cell per column in every row.
\<close>

definition final_labels :: "schema_entry \<Rightarrow> frame \<Rightarrow> string list" where
  "final_labels columns_mapping df =
     map (rename_label (column_mapping columns_mapping)) (map clean_column_name (columns df))"

definition well_formed :: "schema_entry \<Rightarrow> frame \<Rightarrow> bool" where
  "well_formed columns_mapping df =
     (distinct (final_labels columns_mapping df) \<and> rectangular df)"

text \<open>The header check of line 187, on the raw chunk.\<close>

definition headers_present :: "schema_entry \<Rightarrow> frame \<Rightarrow> bool" where
  "headers_present columns_mapping df =
     list_all (\<lambda>col. col \<in> set (map clean_column_name (columns df)))
       (map clean_column_name (entry_columns columns_mapping))"

text \<open>
  The record the loop appends for a row: the dictionary display with every date field
  that holds \<^verbatim>\<open>NaT\<close> set to \<^verbatim>\<open>None\<close>.
\<close>

definition projected :: "string list \<Rightarrow> string \<Rightarrow> string \<Rightarrow> int \<Rightarrow> pyval list \<Rightarrow> canon" where
  "projected cols bank_name transaction_type bank_id row =
     map (\<lambda>(k, v). (k, if k \<in> set datetime_fields \<and> v = NaT then PNone else v))
       (transaction_data_of cols bank_name transaction_type bank_id row)"

text \<open>
  The batch that \<^verbatim>\<open>process_transactions\<close> hands to storage for a chunk that passed the
  header check: the records the loop has accumulated, or nothing when a conversion or
  the loop raised.
\<close>

definition batch_of :: "env \<Rightarrow> schema_entry \<Rightarrow> frame \<Rightarrow> string \<Rightarrow> string \<Rightarrow> int \<Rightarrow> canon list" where
  "batch_of L columns_mapping df bank_name transaction_type bank_id =
     (case prepare L columns_mapping bank_name
             (df\<lparr>columns := map clean_column_name (columns df)\<rparr>) of
        Inl e \<Rightarrow> []
      | Inr df_chunk \<Rightarrow>
         (case rows_loop (columns df_chunk) bank_name transaction_type bank_id (rows df_chunk)
                 loop_start of
            Inl e \<Rightarrow> []
          | Inr st \<Rightarrow> bulk_data_transactions st))"

text \<open>\<^verbatim>\<open>transaction_data[field]\<close> of an output record.\<close>

definition field_of :: "canon \<Rightarrow> string \<Rightarrow> pyval" where
  "field_of transaction_data field =
     (case map_of transaction_data field of Some v \<Rightarrow> v | None \<Rightarrow> PNone)"










text \<open>
  What \<open>prepare\<close> computes when no conversion raises, in two halves: renaming with
  the date conversions, and the amount conversion with the derived column.
\<close>

definition amount_step :: "env \<Rightarrow> string \<Rightarrow> frame \<Rightarrow> frame" where
  "amount_step L bank_name df =
     (if ''Payable_Merchant'' \<in> set (columns df) then
        (let df = to_numeric_column L df ''Payable_Merchant''
         in if bank_name = ''icici'' then
              (let df = map_column fillna0 ''Payable_Merchant'' df
               in assign_column ''CREDIT_DEBIT_AMOUNT''
                    (map credit_debit (column_cells df ''Payable_Merchant'')) df)
            else df)
      else df)"

definition dated :: "env \<Rightarrow> schema_entry \<Rightarrow> frame \<Rightarrow> frame" where
  "dated L e df =
     (let df = rename (column_mapping e) df;
          df = (if ''Transaction_Date'' \<in> set (columns df)
                then to_datetime_column L df ''Transaction_Date'' else df)
      in if ''Settlement_Date'' \<in> set (columns df)
         then to_datetime_column L df ''Settlement_Date'' else df)"

text \<open>
  The frame that \<^verbatim>\<open>process_dataframe_chunk\<close> passes to \<^verbatim>\<open>process_transactions\<close> when
  no conversion raises.
\<close>

definition prepared :: "env \<Rightarrow> schema_entry \<Rightarrow> string \<Rightarrow> frame \<Rightarrow> frame" where
  "prepared L columns_mapping bank_name df =
     amount_step L bank_name
       (dated L columns_mapping (df\<lparr>columns := map clean_column_name (columns df)\<rparr>))"

subsection \<open>A concrete library for evaluation\<close>

text \<open>
  The plain decimal literals among the texts \<^verbatim>\<open>pd.to_numeric\<close> parses: an optional sign,
  digits, and an optional fraction after a dot, with a digit on at least one side of it.
\<close>

definition digit_of :: "char \<Rightarrow> nat option" where
  "digit_of c =
     (let n = (of_char c :: nat) in if 48 \<le> n \<and> n \<le> 57 then Some (n - 48) else None)"

fun digits_value :: "nat \<Rightarrow> string \<Rightarrow> nat option" where
  "digits_value acc [] = Some acc"
| "digits_value acc (c # cs) =
     (case digit_of c of None \<Rightarrow> None | Some d \<Rightarrow> digits_value (10 * acc + d) cs)"

definition unsigned_decimal :: "string \<Rightarrow> rat option" where
  "unsigned_decimal s =
     (let whole = takeWhile (\<lambda>c. c \<noteq> CHR ''.'') s;
          fraction = drop 1 (dropWhile (\<lambda>c. c \<noteq> CHR ''.'') s)
      in if whole = [] \<and> fraction = [] then None
         else (case (digits_value 0 whole, digits_value 0 fraction) of
                 (Some i, Some f) \<Rightarrow> Some (of_nat i + of_nat f / 10 ^ length fraction)
               | _ \<Rightarrow> None))"

definition decimal_literal :: "string \<Rightarrow> rat option" where
  "decimal_literal s =
     (case s of
        [] \<Rightarrow> None
      | c # cs \<Rightarrow>
         (if c = CHR ''-'' then map_option uminus (unsigned_decimal cs)
          else if c = CHR ''+'' then unsigned_decimal cs
          else unsigned_decimal s))"

text \<open>
  A stand-in for the date parser, for evaluation only: a text \<^verbatim>\<open>YYYY-MM-DD\<close> becomes the
  number \<^verbatim>\<open>YYYYMMDD\<close>, everything else does not parse.
\<close>

definition iso_date :: "pyval \<Rightarrow> int option" where
  "iso_date v =
     (case v of
        Str s \<Rightarrow>
          (if length s = 10 \<and> s ! 4 = CHR ''-'' \<and> s ! 7 = CHR ''-''
           then map_option int (digits_value 0 (take 4 s @ take 2 (drop 5 s) @ drop 8 s))
           else None)
      | _ \<Rightarrow> None)"

text \<open>The library with a storage that accepts every batch, or rejects every batch.\<close>

definition lib :: "bool \<Rightarrow> env" where
  "lib accepting =
     \<lparr>to_numeric = decimal_literal,
      to_datetime = (\<lambda>col v. iso_date v),
      bulk_create_ok = (\<lambda>stored batch. accepting)\<rparr>"

definition empty_world :: world where
  "empty_world = \<lparr>cache = None, db = []\<rparr>"

text \<open>Three booking rows of the first bank, with an extra per-row category column.\<close>

definition booking_chunk :: frame where
  "booking_chunk =
     \<lparr>columns = [''TXN DATE'', ''IRCTC ORDER NO.'', ''BANK BOOKING REF.NO.'', ''BOOKING AMOUNT'',
                 ''CREDITED ON'', ''CATEGORY''],
      rows = [[Str ''2024-01-05'', Str ''1001'', Str ''R1'', Str ''1,234.50'', Str ''2024-01-06'',
               Str ''booking''],
              [Str ''2024-01-05'', Str ''1002'', Str ''R2'', Str ''80'', Str ''2024-01-06'',
               Str ''booking''],
              [Str ''2024-01-07'', Str ''1003'', Str ''R3'', Str ''15.75'', Str ''2024-01-08'',
               Str ''cancelled'']]\<rparr>"

text \<open>Three rows of the signed-amount bank.\<close>

definition icici_chunk :: frame where
  "icici_chunk =
     \<lparr>columns = [''POST DATE'', ''FT NO.'', ''SESSION ID [ASPD]'', ''ARN NO'', ''MID'',
                 ''TRANSACTION DATE'', ''NET AMT'', ''CARD NUMBER'', ''CARD TYPE'', ''TID''],
      rows = [[Str ''2024-02-01'', Str ''F1'', Str ''S1'', Str ''A1'', Str ''M77'',
               Str ''2024-01-31'', Str ''50'', Str ''4111'', Str ''VISA'', Str ''T1''],
              [Str ''2024-02-01'', Str ''F2'', Str ''S2'', Str ''A2'', Str ''M77'',
               Str ''2024-01-31'', Str ''-50'', Str ''4112'', Str ''VISA'', Str ''T1''],
              [Str ''2024-02-01'', Str ''F3'', Str ''S3'', Str ''A3'', Str ''M77'',
               Str ''n/a'', Str ''abc'', Str ''4113'', Str ''VISA'', Str ''T1'']]\<rparr>"


text \<open>The registry entry stored under a bank and a category, if any.\<close>

definition registry_entry :: "string \<Rightarrow> string \<Rightarrow> schema_entry option" where
  "registry_entry bank_name category =
     (case map_of BANK_MAPPINGS bank_name of None \<Rightarrow> None | Some m \<Rightarrow> map_of m category)"

text \<open>
  \<^verbatim>\<open>transaction_results_view\<close> (upload/views.py) reads the result slot and shows a
  zero/zero pair when the slot is empty.
\<close>

definition transaction_results_view :: "world \<Rightarrow> nat \<times> nat" where
  "transaction_results_view w = (case cache w of None \<Rightarrow> (0, 0) | Some results \<Rightarrow> results)"

text \<open>The result slot and the stored records after a call, nothing if the call raised.\<close>

definition published :: "py_error + world \<Rightarrow> (nat \<times> nat) option" where
  "published r = (case r of Inl e \<Rightarrow> None | Inr w \<Rightarrow> cache w)"

definition stored_count :: "py_error + world \<Rightarrow> nat option" where
  "stored_count r = (case r of Inl e \<Rightarrow> None | Inr w \<Rightarrow> Some (length (db w)))"

text \<open>A booking chunk without the required header \<^verbatim>\<open>CREDITED ON\<close>.\<close>

definition short_chunk :: frame where
  "short_chunk =
     \<lparr>columns = [''TXN DATE'', ''IRCTC ORDER NO.'', ''BANK BOOKING REF.NO.'', ''BOOKING AMOUNT''],
      rows = [[Str ''2024-01-05'', Str ''1001'', Str ''R1'', Str ''10'']]\<rparr>"

text \<open>
  A booking chunk with the transaction date under two headers that normalize alike, and
  a booking chunk whose amount does not parse.
\<close>

definition repeated_chunk :: frame where
  "repeated_chunk =
     \<lparr>columns = [''TXN DATE'', ''TXN_DATE'', ''IRCTC ORDER NO.'', ''BANK BOOKING REF.NO.'',
                 ''BOOKING AMOUNT'', ''CREDITED ON''],
      rows = [[Str ''2024-01-05'', Str ''2024-01-05'', Str ''1001'', Str ''R1'', Str ''10'',
               Str ''2024-01-06'']]\<rparr>"



section \<open>The header normalizer as a filter\<close>

lemma concat_split_acc:
  "concat (filter (\<lambda>part. part \<noteq> []) (split_acc w s)) = w @ filter (\<lambda>c. \<not> isspace c) s"
  by (induction s arbitrary: w) auto

lemma dropWhile_none: "\<forall>c \<in> set s. \<not> P c \<Longrightarrow> dropWhile P s = s"
  by (cases s) auto

lemma py_strip_id: "\<forall>c \<in> set s. \<not> isspace c \<Longrightarrow> py_strip s = s"
  by (simp add: py_strip_def dropWhile_none)

lemma filter_kept:
  "filter (\<lambda>c. c \<notin> set [CHR ''.'', CHR ''_'']) (filter (\<lambda>c. \<not> isspace c) s) = filter kept s"
  by (induction s) (auto simp: kept_def)

lemma clean_column_name_filter:
  "clean_column_name s = filter kept (regex_sub False s)"
proof -
  have "clean_column_name s = py_strip (filter kept (regex_sub False s))"
    by (simp only: clean_column_name_def Let_def py_split_def concat_split_acc append_Nil filter_kept)
  also have "\<dots> = filter kept (regex_sub False s)"
    by (rule py_strip_id) (simp add: kept_def)
  finally show ?thesis .
qed

lemma closes_insert:
  "c \<noteq> CHR '']'' \<Longrightarrow> c \<noteq> LF \<Longrightarrow> closes (xs @ c # ys) = closes (xs @ ys)"
  by (induction xs) auto

lemma regex_sub_insert:
  "\<not> kept c \<Longrightarrow> c \<noteq> LF \<Longrightarrow>
   filter kept (regex_sub b (xs @ c # ys)) = filter kept (regex_sub b (xs @ ys))"
proof (induction xs arbitrary: b)
  case Nil
  then have "c \<noteq> CHR ''[''" "c \<noteq> CHR '']''"
    by (auto simp: kept_def isspace_def whitespace_chars_def)
  with Nil show ?case by (cases b) auto
next
  case (Cons x xs)
  then have c: "c \<noteq> CHR '']''"
    by (auto simp: kept_def isspace_def whitespace_chars_def)
  show ?case
    using Cons by (cases b) (auto simp: closes_insert [OF c])
qed

lemma closes_append_LF: "closes (xs @ [LF]) = closes xs"
  by (induction xs) (auto simp: LF_def)

lemma regex_sub_append_LF:
  "filter kept (regex_sub b (xs @ [LF])) = filter kept (regex_sub b xs)"
proof (induction xs arbitrary: b)
  case Nil
  show ?case by (cases b) (auto simp: kept_def isspace_def whitespace_chars_def LF_def)
next
  case (Cons x xs)
  then show ?case by (cases b) (auto simp: closes_append_LF)
qed

lemma closes_appendI: "closes xs \<Longrightarrow> closes (xs @ ys)"
  by (induction xs) (auto split: if_splits)

lemma closes_mem: "closes xs \<Longrightarrow> CHR '']'' \<in> set xs"
  by (induction xs) (auto split: if_splits)

text \<open>
  A prefix that leaves no opening bracket behind is scanned on its own: every match that
  starts in it ends in it.
\<close>

lemma regex_sub_append:
  "(CHR ''['' \<notin> set (regex_sub False h) \<longrightarrow>
      regex_sub False (h @ k) = regex_sub False h @ regex_sub False k) \<and>
   (CHR '']'' \<in> set h \<longrightarrow> CHR ''['' \<notin> set (regex_sub True h) \<longrightarrow>
      regex_sub True (h @ k) = regex_sub True h @ regex_sub False k)"
proof (induction h)
  case Nil
  show ?case by simp
next
  case (Cons x h)
  show ?case
  proof (intro conjI impI)
    assume a: "CHR ''['' \<notin> set (regex_sub False (x # h))"
    show "regex_sub False ((x # h) @ k) = regex_sub False (x # h) @ regex_sub False k"
    proof (cases "x = CHR ''[''")
      case True
      with a have cl: "closes h" by (auto split: if_splits)
      then have "closes (h @ k)" "CHR '']'' \<in> set h"
        by (simp_all add: closes_appendI closes_mem)
      with a True cl Cons show ?thesis by simp
    next
      case False
      with a Cons show ?thesis by simp
    qed
  next
    assume m: "CHR '']'' \<in> set (x # h)" and a: "CHR ''['' \<notin> set (regex_sub True (x # h))"
    show "regex_sub True ((x # h) @ k) = regex_sub True (x # h) @ regex_sub False k"
      using m a Cons by (cases "x = CHR '']''") auto
  qed
qed

lemma regex_sub_skip:
  "CHR '']'' \<notin> set t \<Longrightarrow> regex_sub True (t @ [CHR '']'']) = []"
  by (induction t) auto

lemma closes_suffix: "LF \<notin> set t \<Longrightarrow> closes (t @ [CHR '']''])"
  by (induction t) auto

lemma regex_sub_bracket_suffix:
  assumes "CHR ''['' \<notin> set (regex_sub False h)" "CHR '']'' \<notin> set t" "LF \<notin> set t"
  shows "regex_sub False (h @ CHR ''['' # t @ [CHR '']'']) = regex_sub False h"
  using assms regex_sub_append [of h "CHR ''['' # t @ [CHR '']'']"]
  by (simp add: regex_sub_skip closes_suffix)

lemma regex_sub_line_feed:
  assumes "CHR ''['' \<notin> set (regex_sub False xs)"
  shows "filter kept (regex_sub False (xs @ LF # ys)) = filter kept (regex_sub False (xs @ ys))"
proof -
  have "\<not> kept LF"
    by (simp add: kept_def isspace_def whitespace_chars_def LF_def)
  moreover have "LF \<noteq> CHR ''[''"
    by (simp add: LF_def)
  ultimately show ?thesis
    using assms regex_sub_append [of xs "LF # ys"] regex_sub_append [of xs ys] by simp
qed

lemma header_variant_filter:
  "header_variant h1 h2 \<Longrightarrow> filter kept (regex_sub False h1) = filter kept (regex_sub False h2)"
proof (induction rule: header_variant.induct)
  case (punct c xs ys)
  then have "\<not> kept c" "c \<noteq> LF" by (auto simp: kept_def LF_def)
  then show ?case by (simp add: regex_sub_insert)
next
  case (space c xs ys)
  then have "\<not> kept c" by (simp add: kept_def)
  with space show ?case by (simp add: regex_sub_insert)
next
  case (line_feed xs ys)
  then show ?case by (simp add: regex_sub_line_feed)
next
  case (line_feed_end xs)
  show ?case by (simp add: regex_sub_append_LF)
next
  case (suffix h t)
  then show ?case by (simp add: regex_sub_bracket_suffix)
qed simp_all

text \<open>
  C7 (as amended). Header normalization removes the bracketed parts first, then all
  whitespace, then the dots and underscores, then trims; and two raw headers that differ
  only by dots and underscores, by whitespace other than a line feed, by a line feed at
  the end or after a prefix without an unmatched opening bracket, or by a bracketed suffix
  whose content has no closing bracket and no line feed (after a header without an
  unmatched opening bracket) have the same normalized key. The function is total and
  deterministic as every HOL function is.
\<close>

theorem clean_column_name_variants:
  "(header_variant h1 h2 \<longrightarrow> clean_column_name h1 = clean_column_name h2) \<and>
   clean_column_name h =
     py_strip (filter (\<lambda>c. c \<noteq> CHR ''.'' \<and> c \<noteq> CHR ''_'')
       (filter (\<lambda>c. \<not> isspace c) (regex_sub False h)))"
proof
  show "header_variant h1 h2 \<longrightarrow> clean_column_name h1 = clean_column_name h2"
    by (simp add: clean_column_name_filter header_variant_filter)
next
  have "filter (\<lambda>c. c \<noteq> CHR ''.'' \<and> c \<noteq> CHR ''_'') (filter (\<lambda>c. \<not> isspace c) (regex_sub False h))
        = filter kept (regex_sub False h)"
    using filter_kept [of "regex_sub False h"] by simp
  moreover have "py_strip (filter kept (regex_sub False h)) = filter kept (regex_sub False h)"
    by (rule py_strip_id) (simp add: kept_def)
  ultimately show "clean_column_name h =
     py_strip (filter (\<lambda>c. c \<noteq> CHR ''.'' \<and> c \<noteq> CHR ''_'')
       (filter (\<lambda>c. \<not> isspace c) (regex_sub False h)))"
    by (simp only: clean_column_name_filter)
qed

theorem clean_column_name_variants_witness:
  "header_variant ''SESSIONID'' ''SESSION_ID [ASPD]'' \<and>
   clean_column_name ''SESSIONID'' = clean_column_name ''SESSION_ID [ASPD]'' \<and>
   clean_column_name ''SESSION_ID [ASPD]'' = ''SESSIONID''"
proof -
  have 1: "header_variant ''SESSIONID'' ''SESSION_ID''"
    using header_variant.punct [of "CHR ''_''" "''SESSION''" "''ID''"] by simp
  have 2: "header_variant ''SESSION_ID'' ''SESSION_ID ''"
    using header_variant.space [of "CHR '' ''" "''SESSION_ID''" "[]"]
    by (simp add: isspace_def whitespace_chars_def LF_def)
  have 3: "header_variant ''SESSION_ID '' ''SESSION_ID [ASPD]''"
    using header_variant.suffix [of "''SESSION_ID ''" "''ASPD''"] by (simp add: LF_def)
  have v: "header_variant ''SESSIONID'' ''SESSION_ID [ASPD]''"
    using 1 2 3 by (blast intro: header_variant.trans)
  moreover have "clean_column_name ''SESSIONID'' = clean_column_name ''SESSION_ID [ASPD]''"
    using clean_column_name_variants [of "''SESSIONID''" "''SESSION_ID [ASPD]''"] v by blast
  moreover have "clean_column_name ''SESSION_ID [ASPD]'' = ''SESSIONID''"
    by (simp add: clean_column_name_filter kept_def isspace_def whitespace_chars_def LF_def)
  ultimately show ?thesis by blast
qed

text \<open>
  C7 as stated fails: a bracketed suffix that itself contains brackets is removed only up
  to its first closing bracket, and a line feed inside a bracketed part keeps the part
  from being removed.
\<close>

theorem clean_column_name_counterexample:
  "clean_column_name (''AMT'' @ '' [a[b]]'') \<noteq> clean_column_name ''AMT'' \<and>
   clean_column_name (''A[x'' @ [LF] @ ''y]'') \<noteq> clean_column_name ''A[xy]''"
  by (simp add: clean_column_name_filter kept_def isspace_def whitespace_chars_def LF_def)

section \<open>Schema resolution and the early exits\<close>

lemma in_keys_map_of: "(k \<in> fst ` set m) = (map_of m k \<noteq> None)"
  by (simp add: map_of_eq_None_iff)

lemma resolve_registry:
  "resolve bank_name transaction_type =
     (case registry_entry bank_name transaction_type of
        Some e \<Rightarrow> Some e
      | None \<Rightarrow> registry_entry bank_name ''both'')"
  by (auto simp: resolve_def registry_entry_def in_keys_map_of split: option.splits)

lemma clean_samples:
  "clean_column_name ''TXN DATE'' = ''TXNDATE''"
  "clean_column_name ''IRCTC ORDER NO.'' = ''IRCTCORDERNO''"
  "clean_column_name ''BANK BOOKING REF.NO.'' = ''BANKBOOKINGREFNO''"
  "clean_column_name ''BOOKING AMOUNT'' = ''BOOKINGAMOUNT''"
  "clean_column_name ''CREDITED ON'' = ''CREDITEDON''"
  "clean_column_name ''REFUND DATE'' = ''REFUNDDATE''"
  "clean_column_name ''BANK REFUND REF.NO.'' = ''BANKREFUNDREFNO''"
  "clean_column_name ''REFUND AMOUNT'' = ''REFUNDAMOUNT''"
  "clean_column_name ''DEBITED ON'' = ''DEBITEDON''"
  "clean_column_name ''POST DATE'' = ''POSTDATE''"
  "clean_column_name ''FT NO.'' = ''FTNO''"
  "clean_column_name ''SESSION ID [ASPD]'' = ''SESSIONID''"
  "clean_column_name ''ARN NO'' = ''ARNNO''"
  "clean_column_name ''MID'' = ''MID''"
  "clean_column_name ''TRANSACTION DATE'' = ''TRANSACTIONDATE''"
  "clean_column_name ''NET AMT'' = ''NETAMT''"
  "clean_column_name ''CARD NUMBER'' = ''CARDNUMBER''"
  "clean_column_name ''CARD TYPE'' = ''CARDTYPE''"
  "clean_column_name ''TID'' = ''TID''"
  "clean_column_name ''CATEGORY'' = ''CATEGORY''"
  "clean_column_name ''TXN_DATE'' = ''TXNDATE''"
  by (simp_all add: clean_column_name_filter kept_def isspace_def whitespace_chars_def LF_def)

text \<open>
  C8. Schema resolution uses the entry stored under (bank, category) when there is one,
  otherwise the entry stored under (bank, \<^verbatim>\<open>both\<close>) when there is one, and otherwise
  finds nothing; then the chunk is skipped: no record is stored, the result slot is left
  as it was, and the call returns normally, so the submission goes on.
\<close>

theorem resolve_order:
  "(registry_entry bank_name transaction_type = Some e \<longrightarrow>
      resolve bank_name transaction_type = Some e) \<and>
   (registry_entry bank_name transaction_type = None \<longrightarrow>
      resolve bank_name transaction_type = registry_entry bank_name ''both'') \<and>
   (resolve bank_name transaction_type = None \<longrightarrow>
      process_dataframe_chunk L df_chunk bank_name transaction_type w = Inr w)"
  by (simp add: resolve_registry process_dataframe_chunk_def)

theorem resolve_order_witness:
  "registry_entry ''karur_vysya'' ''refund'' = Some karur_vysya_refund \<and>
   resolve ''karur_vysya'' ''refund'' = Some karur_vysya_refund \<and>
   registry_entry ''icici'' ''booking'' = None \<and>
   resolve ''icici'' ''booking'' = Some icici_both \<and>
   resolve ''hdfc'' ''booking'' = None \<and>
   process_dataframe_chunk (lib True) booking_chunk ''hdfc'' ''booking'' empty_world = Inr empty_world"
proof -
  have a: "registry_entry ''karur_vysya'' ''refund'' = Some karur_vysya_refund"
    by (simp add: registry_entry_def BANK_MAPPINGS_def)
  have b: "registry_entry ''icici'' ''booking'' = None"
    by (simp add: registry_entry_def BANK_MAPPINGS_def)
  have b': "registry_entry ''icici'' ''both'' = Some icici_both"
    by (simp add: registry_entry_def BANK_MAPPINGS_def)
  have c: "registry_entry ''hdfc'' ''booking'' = None" "registry_entry ''hdfc'' ''both'' = None"
    by (simp_all add: registry_entry_def BANK_MAPPINGS_def)
  have d: "resolve ''hdfc'' ''booking'' = None"
    using resolve_order [of "''hdfc''" "''booking''"] c by simp
  show ?thesis
    using a b b' d
      resolve_order [of "''karur_vysya''" "''refund''" karur_vysya_refund]
      resolve_order [of "''icici''" "''booking''"]
      resolve_order [of "''hdfc''" "''booking''" _ "lib True" booking_chunk empty_world]
    by simp
qed

lemma short_chunk_facts:
  "resolve ''karur_vysya'' ''booking'' = Some karur_vysya_booking"
  "\<not> headers_present karur_vysya_booking short_chunk"
  by (simp_all add: resolve_registry registry_entry_def BANK_MAPPINGS_def headers_present_def
       short_chunk_def karur_vysya_booking_def clean_samples)

text \<open>
  C3 (as amended). For every chunk that, after header normalization, misses a required
  header of its resolved schema entry, the call ends without a result: nothing is
  published (the result slot keeps what it held), no record reaches storage, and no row
  is processed.
\<close>

theorem missing_header_rejected:
  "resolve bank_name transaction_type = Some e \<Longrightarrow> \<not> headers_present e df_chunk \<Longrightarrow>
   process_dataframe_chunk L df_chunk bank_name transaction_type w = Inr w"
  by (simp add: process_dataframe_chunk_def headers_present_def)

theorem missing_header_rejected_witness:
  "resolve ''karur_vysya'' ''booking'' = Some karur_vysya_booking \<and>
   \<not> headers_present karur_vysya_booking short_chunk \<and>
   process_dataframe_chunk (lib True) short_chunk ''karur_vysya'' ''booking'' empty_world
     = Inr empty_world"
  using short_chunk_facts
    missing_header_rejected [OF short_chunk_facts, of "lib True" empty_world]
  by simp

text \<open>
  C3 as stated fails: after a chunk with a missing required header the published result
  is whatever an earlier chunk left there, here \<open>(3, 0)\<close>, and the reporting view
  shows that pair, not \<open>(0, 0)\<close>.
\<close>

theorem missing_header_counterexample:
  "published (process_dataframe_chunk (lib True) short_chunk ''karur_vysya'' ''booking''
      \<lparr>cache = Some (3, 0), db = []\<rparr>) = Some (3, 0) \<and>
   map_sum id transaction_results_view
     (process_dataframe_chunk (lib True) short_chunk ''karur_vysya'' ''booking''
        \<lparr>cache = Some (3, 0), db = []\<rparr>) = Inr (3, 0)"
  using short_chunk_facts
  by (simp add: process_dataframe_chunk_def headers_present_def published_def
      transaction_results_view_def)

section \<open>Amount coercion\<close>



section \<open>The row loop\<close>

lemma keys_dict_set: "map fst (dict_set f x d) = map fst d"
  by (induction d) (auto simp: dict_set_def)

lemma handle_nat_loop_eq:
  "distinct (map fst d) \<Longrightarrow> set fs \<subseteq> fst ` set d \<Longrightarrow>
   handle_nat_loop fs d = Inr (map (\<lambda>(k, v). (k, if k \<in> set fs \<and> v = NaT then PNone else v)) d)"
proof (induction fs arbitrary: d)
  case Nil
  show ?case by (simp add: case_prod_beta)
next
  case (Cons f fs)
  from Cons.prems obtain v where v: "map_of d f = Some v"
    by (auto simp: in_keys_map_of)
  have ent: "\<And>k u. (k, u) \<in> set d \<Longrightarrow> k = f \<Longrightarrow> u = v"
    using Cons.prems(1) v by (metis map_of_is_SomeI option.inject)
  let ?d' = "if v = NaT then dict_set f PNone d else d"
  have keys: "map fst ?d' = map fst d" by (simp add: keys_dict_set)
  have "distinct (map fst ?d')" "set fs \<subseteq> fst ` set ?d'"
    using Cons.prems keys by (simp_all only: flip: set_map) auto
  then have "handle_nat_loop fs ?d' =
      Inr (map (\<lambda>(k, v). (k, if k \<in> set fs \<and> v = NaT then PNone else v)) ?d')"
    by (rule Cons.IH)
  moreover have "map (\<lambda>(k, v). (k, if k \<in> set fs \<and> v = NaT then PNone else v)) ?d' =
      map (\<lambda>(k, v). (k, if k \<in> set (f # fs) \<and> v = NaT then PNone else v)) d"
    using ent by (auto simp: dict_set_def)
  ultimately show ?case using v by simp
qed

lemma keys_transaction_data_of:
  "map fst (transaction_data_of cols b t i row) = canonical_fields"
  by (simp add: transaction_data_of_def canonical_fields_def Let_def)

lemma distinct_canonical_fields: "distinct canonical_fields"
  by (simp add: canonical_fields_def)

lemma datetime_fields_canonical: "set datetime_fields \<subseteq> set canonical_fields"
  by (simp add: canonical_fields_def datetime_fields_def)

text \<open>The date clean-up never meets a missing key on the dictionary display.\<close>

lemma handle_nat_transaction_data:
  "handle_nat_in_datetime_fields (transaction_data_of cols b t i row) = Inr (projected cols b t i row)"
proof -
  have "distinct (map fst (transaction_data_of cols b t i row))"
    by (simp only: keys_transaction_data_of distinct_canonical_fields)
  moreover have "set datetime_fields \<subseteq> fst ` set (transaction_data_of cols b t i row)"
    using datetime_fields_canonical keys_transaction_data_of [of cols b t i row]
    by (metis set_map)
  ultimately show ?thesis
    unfolding handle_nat_in_datetime_fields_def projected_def by (rule handle_nat_loop_eq)
qed

lemma rows_loop_invalid:
  "transaction_type \<notin> set [''booking'', ''refund'', ''both''] \<Longrightarrow>
   rows_loop cols b transaction_type i rs st = Inr (st\<lparr>fail_count := fail_count st + length rs\<rparr>)"
  by (induction rs arbitrary: st) simp_all

lemma frame_conversions_absent:
  "\<forall>l \<in> set labels. l \<notin> set cols \<Longrightarrow> frame_conversions cols nm labels = Inr nm"
  by (induction labels arbitrary: nm) simp_all

lemma rows_loop_valid:
  assumes "transaction_type \<in> set [''booking'', ''refund'', ''both'']"
    and "\<forall>l \<in> set frame_float_fields. l \<notin> set cols"
  shows "rows_loop cols b transaction_type i rs st =
     Inr (st\<lparr>bulk_data_transactions :=
               bulk_data_transactions st @ map (projected cols b transaction_type i) rs,
             success_count := success_count st + length rs\<rparr>)"
  using assms
proof (induction rs arbitrary: st)
  case Nil
  show ?case by simp
next
  case (Cons r rs)
  have "transaction_type \<in> set [''booking'', ''refund'', ''both'']" by fact
  then show ?case
    using Cons.IH [OF Cons.prems]
    by (simp add: frame_conversions_absent [OF Cons.prems(2)] handle_nat_transaction_data
        del: set_simps)
qed


section \<open>The prepared frame and the chunk processor\<close>

lemma columns_map_column [simp]: "columns (map_column f l df) = columns df"
  by (simp add: map_column_def)

lemma length_rows_map_column [simp]: "length (rows (map_column f l df)) = length (rows df)"
  by (simp add: map_column_def)

lemma columns_convert [simp]:
  "columns (to_datetime_column L df l) = columns df"
  "columns (to_numeric_column L df l) = columns df"
  by (simp_all add: to_datetime_column_def to_numeric_column_def)

lemma length_rows_convert [simp]:
  "length (rows (to_datetime_column L df l)) = length (rows df)"
  "length (rows (to_numeric_column L df l)) = length (rows df)"
  by (simp_all add: to_datetime_column_def to_numeric_column_def)

lemma columns_assign_column:
  "columns (assign_column l vals df) = (if l \<in> set (columns df) then columns df else columns df @ [l])"
  by (simp add: assign_column_def)

lemma length_rows_assign_column:
  "length vals = length (rows df) \<Longrightarrow> length (rows (assign_column l vals df)) = length (rows df)"
  by (simp add: assign_column_def)

lemma columns_rename [simp]:
  "columns (rename cm df) = map (rename_label cm) (columns df)"
  by (simp add: rename_def)

lemma rows_rename [simp]: "rows (rename cm df) = rows df"
  by (simp add: rename_def)

lemma length_column_cells [simp]: "length (column_cells df l) = length (rows df)"
  by (simp add: column_cells_def)

lemma set_columns_prepared:
  "set (columns (prepared L e b df)) \<subseteq>
     insert ''CREDIT_DEBIT_AMOUNT'' (set (final_labels e df))"
  by (auto simp: prepared_def amount_step_def dated_def final_labels_def Let_def
      columns_assign_column)

lemma length_rows_prepared: "length (rows (prepared L e b df)) = length (rows df)"
  by (simp add: prepared_def amount_step_def dated_def Let_def length_rows_assign_column)


lemma not_repeated: "distinct xs \<Longrightarrow> \<not> 1 < count_list xs x"
  by (induction xs) (auto simp: count_list_0_iff)

lemma convert_distinct:
  assumes "distinct (columns df)" "l \<in> set (columns df)"
  shows "convert_column_to_datetime L df l = Inr (to_datetime_column L df l)"
    and "convert_payable_to_float L df l = Inr (to_numeric_column L df l)"
  using assms not_repeated [of "columns df" l]
  by (simp_all add: convert_column_to_datetime_def convert_payable_to_float_def)


lemma prepare_distinct:
  assumes "distinct (map (rename_label (column_mapping e)) (columns df))"
  shows "prepare L e b df = Inr (amount_step L b (dated L e df))"
proof -
  let ?d1 = "rename (column_mapping e) df"
  let ?d2 = "if ''Transaction_Date'' \<in> set (columns ?d1)
             then to_datetime_column L ?d1 ''Transaction_Date'' else ?d1"
  let ?d3 = "if ''Settlement_Date'' \<in> set (columns ?d2)
             then to_datetime_column L ?d2 ''Settlement_Date'' else ?d2"
  have d: "dated L e df = ?d3" by (simp add: dated_def Let_def)
  have 1: "distinct (columns ?d1)" using assms by simp
  then have 2: "distinct (columns ?d2)" by simp
  then have 3: "distinct (columns ?d3)" by simp
  show ?thesis
    using convert_distinct(1) [OF 1, of "''Transaction_Date''" L]
      convert_distinct(1) [OF 2, of "''Settlement_Date''" L]
      convert_distinct(2) [OF 3, of "''Payable_Merchant''" L]
    unfolding d
    by (auto simp: prepare_def amount_step_def Let_def)
qed

lemma clean_no_underscore: "CHR ''_'' \<notin> set (clean_column_name s)"
  by (simp add: clean_column_name_filter kept_def)

lemma resolve_cases:
  assumes "resolve b t = Some e"
  shows "(b = ''karur_vysya'' \<and> e = karur_vysya_booking) \<or>
         (b = ''karur_vysya'' \<and> e = karur_vysya_refund) \<or>
         (b = ''icici'' \<and> e = icici_both)"
  using assms
  by (auto simp: resolve_registry registry_entry_def BANK_MAPPINGS_def
      split: option.splits if_splits)

lemma resolve_bank_code:
  "resolve b t = Some e \<Longrightarrow> \<exists>i. map_of BANK_CODE_MAPPING b = Some i"
  by (drule resolve_cases) (auto simp: BANK_CODE_MAPPING_def)

lemma rename_label_cases:
  "rename_label cm c = c \<or> rename_label cm c \<in> snd ` set cm"
  by (auto simp: rename_label_def split: option.splits dest!: map_of_SomeD intro: rev_image_eqI)

lemma float_field_not_target:
  assumes "resolve b t = Some e" "l \<in> set frame_float_fields"
  shows "l \<notin> snd ` set (column_mapping e)" "CHR ''_'' \<in> set l" "l \<noteq> ''CREDIT_DEBIT_AMOUNT''"
  using resolve_cases [OF assms(1)] assms(2)
  by (auto simp: frame_float_fields_def karur_vysya_booking_def karur_vysya_refund_def
      icici_both_def)

lemma float_fields_absent:
  assumes "resolve b t = Some e"
  shows "\<forall>l \<in> set frame_float_fields. l \<notin> set (columns (prepared L e b df))"
proof
  fix l assume l: "l \<in> set frame_float_fields"
  show "l \<notin> set (columns (prepared L e b df))"
  proof
    assume "l \<in> set (columns (prepared L e b df))"
    with set_columns_prepared [of L e b df]
    have "l = ''CREDIT_DEBIT_AMOUNT'' \<or>
          l \<in> rename_label (column_mapping e) ` clean_column_name ` set (columns df)"
      by (auto simp: final_labels_def)
    with float_field_not_target [OF assms l] obtain c where
      "l = rename_label (column_mapping e) (clean_column_name c)" by auto
    with rename_label_cases [of "column_mapping e" "clean_column_name c"]
      float_field_not_target [OF assms l]
    have "l = clean_column_name c" by auto
    with clean_no_underscore [of c] float_field_not_target(2) [OF assms l]
    show False by simp
  qed
qed

lemma prepare_cleaned:
  assumes "distinct (final_labels e df)"
  shows "prepare L e b (df\<lparr>columns := map clean_column_name (columns df)\<rparr>) = Inr (prepared L e b df)"
proof -
  have "distinct (map (rename_label (column_mapping e))
          (columns (df\<lparr>columns := map clean_column_name (columns df)\<rparr>)))"
    using assms by (simp add: final_labels_def)
  from prepare_distinct [OF this] show ?thesis by (simp add: prepared_def)
qed

lemma process_dataframe_chunk_passes:
  assumes "resolve b t = Some e" "headers_present e df" "distinct (final_labels e df)"
  shows "process_dataframe_chunk L df b t w =
           (case process_transactions L (prepared L e b df) b t w of
              Inl err \<Rightarrow> Inl err | Inr (results, w') \<Rightarrow> Inr w')"
  using assms(1,2)
  by (simp add: process_dataframe_chunk_def headers_present_def prepare_cleaned [OF assms(3)])

lemma process_dataframe_chunk_invalid:
  assumes "resolve b t = Some e" "headers_present e df"
    and "t \<notin> set [''booking'', ''refund'', ''both'']"
    and "distinct (final_labels e df)"
  shows "process_dataframe_chunk L df b t w = Inr (w\<lparr>cache := Some (0, length (rows df))\<rparr>)"
proof -
  from resolve_bank_code [OF assms(1)] obtain i where i: "map_of BANK_CODE_MAPPING b = Some i" ..
  show ?thesis
    by (simp add: process_dataframe_chunk_passes [OF assms(1,2,4)] process_transactions_def i
        rows_loop_invalid [OF assms(3)] length_rows_prepared Let_def loop_start_def)
qed

lemma batch_of_valid:
  assumes "resolve b t = Some e" "t \<in> set [''booking'', ''refund'', ''both'']"
    and "distinct (final_labels e df)"
  shows "batch_of L e df b t i =
           map (projected (columns (prepared L e b df)) b t i) (rows (prepared L e b df))"
  by (simp add: batch_of_def prepare_cleaned [OF assms(3)] loop_start_def
      rows_loop_valid [OF assms(2) float_fields_absent [OF assms(1)]])

lemma process_dataframe_chunk_valid:
  assumes "resolve b t = Some e" "headers_present e df"
    and "t \<in> set [''booking'', ''refund'', ''both'']"
    and "map_of BANK_CODE_MAPPING b = Some i"
    and "distinct (final_labels e df)"
  shows "process_dataframe_chunk L df b t w =
     Inr (if rows df = [] then w\<lparr>cache := Some (0, 0)\<rparr>
          else if bulk_create_ok L (db w) (batch_of L e df b t i)
          then w\<lparr>cache := Some (length (rows df), 0), db := db w @ batch_of L e df b t i\<rparr>
          else w\<lparr>cache := Some (length (rows df), length (rows df))\<rparr>)"
proof -
  have len: "length (rows (prepared L e b df)) = length (rows df)"
    by (rule length_rows_prepared)
  then have nil: "(rows (prepared L e b df) = []) = (rows df = [])"
    by (metis length_0_conv)
  show ?thesis
    by (simp add: process_dataframe_chunk_passes [OF assms(1,2,5)] process_transactions_def
        assms(4) rows_loop_valid [OF assms(3) float_fields_absent [OF assms(1)]]
        batch_of_valid [OF assms(1,3,5)] bulk_create_transactions_def len nil Let_def
        loop_start_def del: set_simps)
qed

section \<open>Row accounting\<close>

lemma lib_simps:
  "to_numeric (lib a) = decimal_literal"
  "to_datetime (lib a) col = iso_date"
  "bulk_create_ok (lib a) stored batch = a"
  by (simp_all add: lib_def)

lemma booking_chunk_facts:
  "headers_present karur_vysya_booking booking_chunk"
  "well_formed karur_vysya_booking booking_chunk"
  "length (rows booking_chunk) = 3"
  "rows booking_chunk \<noteq> []"
  "map_of BANK_CODE_MAPPING ''karur_vysya'' = Some 40"
  "distinct (final_labels karur_vysya_booking booking_chunk)"
  by (simp_all add: headers_present_def well_formed_def final_labels_def rectangular_def
      booking_chunk_def karur_vysya_booking_def clean_samples rename_label_def
      BANK_CODE_MAPPING_def)

lemma icici_chunk_facts:
  "resolve ''icici'' ''cancelled'' = Some icici_both"
  "resolve ''icici'' ''refund'' = Some icici_both"
  "headers_present icici_both icici_chunk"
  "well_formed icici_both icici_chunk"
  "length (rows icici_chunk) = 3"
  "rows icici_chunk \<noteq> []"
  "map_of BANK_CODE_MAPPING ''icici'' = Some 102"
  "distinct (final_labels icici_both icici_chunk)"
  by (simp_all add: resolve_registry registry_entry_def BANK_MAPPINGS_def
      headers_present_def well_formed_def final_labels_def rectangular_def
      icici_chunk_def icici_both_def clean_samples rename_label_def BANK_CODE_MAPPING_def)

text \<open>
  C10 (as amended). For every chunk whose labels stay pairwise distinct after
  normalization and renaming, that passes schema resolution, the required-header check
  and the bank-code lookup, and whose transaction category is one of \<^verbatim>\<open>booking\<close>,
  \<^verbatim>\<open>refund\<close>, \<^verbatim>\<open>both\<close>, the batch is the list of the projections of the rows, one
  record per row in row order (nothing is validated, nothing is dropped, equal rows give
  equal records that are both kept), and the published successful count is the number
  of rows, whatever the commit does.
\<close>

theorem all_rows_projected:
  assumes "resolve bank_name transaction_type = Some e"
    and "headers_present e df"
    and "distinct (final_labels e df)"
    and "map_of BANK_CODE_MAPPING bank_name = Some bank_id"
    and "transaction_type \<in> set [''booking'', ''refund'', ''both'']"
  shows "batch_of L e df bank_name transaction_type bank_id =
           map (projected (columns (prepared L e bank_name df)) bank_name transaction_type bank_id)
             (rows (prepared L e bank_name df)) \<and>
         length (batch_of L e df bank_name transaction_type bank_id) = length (rows df) \<and>
         published (process_dataframe_chunk L df bank_name transaction_type w) =
           Some (length (rows df),
                 if rows df = [] \<or>
                    bulk_create_ok L (db w) (batch_of L e df bank_name transaction_type bank_id)
                 then 0 else length (rows df))"
proof -
  have b: "batch_of L e df bank_name transaction_type bank_id =
           map (projected (columns (prepared L e bank_name df)) bank_name transaction_type bank_id)
             (rows (prepared L e bank_name df))"
    by (rule batch_of_valid [OF assms(1,5,3)])
  then have l: "length (batch_of L e df bank_name transaction_type bank_id) = length (rows df)"
    by (simp add: length_rows_prepared)
  have "published (process_dataframe_chunk L df bank_name transaction_type w) =
           Some (length (rows df),
                 if rows df = [] \<or>
                    bulk_create_ok L (db w) (batch_of L e df bank_name transaction_type bank_id)
                 then 0 else length (rows df))"
    unfolding process_dataframe_chunk_valid [OF assms(1,2,5,4,3), of L w]
    by (simp add: published_def)
  with b l show ?thesis by blast
qed

theorem all_rows_projected_witness:
  "resolve ''karur_vysya'' ''booking'' = Some karur_vysya_booking \<and>
   headers_present karur_vysya_booking booking_chunk \<and>
   distinct (final_labels karur_vysya_booking booking_chunk) \<and>
   map_of BANK_CODE_MAPPING ''karur_vysya'' = Some 40 \<and>
   ''booking'' \<in> set [''booking'', ''refund'', ''both''] \<and>
   length (batch_of (lib True) karur_vysya_booking booking_chunk ''karur_vysya'' ''booking'' 40) = 3 \<and>
   published (process_dataframe_chunk (lib True) booking_chunk ''karur_vysya'' ''booking'' empty_world)
     = Some (3, 0)"
proof -
  have v: "''booking'' \<in> set [''booking'', ''refund'', ''both'']" by simp
  note t = all_rows_projected [OF short_chunk_facts(1) booking_chunk_facts(1,6,5) v,
      of "lib True" empty_world]
  from t have "length (batch_of (lib True) karur_vysya_booking booking_chunk ''karur_vysya'' ''booking'' 40)
      = length (rows booking_chunk)"
    by blast
  then have 1: "length (batch_of (lib True) karur_vysya_booking booking_chunk ''karur_vysya'' ''booking'' 40) = 3"
    by (simp only: booking_chunk_facts(3))
  from t have "published (process_dataframe_chunk (lib True) booking_chunk ''karur_vysya'' ''booking'' empty_world)
      = Some (length (rows booking_chunk),
              if rows booking_chunk = [] \<or>
                 bulk_create_ok (lib True) (db empty_world)
                   (batch_of (lib True) karur_vysya_booking booking_chunk ''karur_vysya'' ''booking'' 40)
              then 0 else length (rows booking_chunk))"
    by blast
  then have 2: "published (process_dataframe_chunk (lib True) booking_chunk ''karur_vysya'' ''booking'' empty_world)
      = Some (3, 0)"
    by (simp add: booking_chunk_facts(3) lib_simps)
  from 1 2 show ?thesis
    using short_chunk_facts(1) booking_chunk_facts(1,5,6) v by blast
qed

lemma repeated_chunk_facts:
  "headers_present karur_vysya_booking repeated_chunk"
  "rename (column_mapping karur_vysya_booking)
     (repeated_chunk\<lparr>columns := map clean_column_name (columns repeated_chunk)\<rparr>) =
   repeated_chunk\<lparr>columns := [''Transaction_Date'', ''Transaction_Date'', ''Order_Id'',
                               ''Bank_Ref_id'', ''Payable_Merchant'', ''Settlement_Date'']\<rparr>"
  by (simp_all add: headers_present_def repeated_chunk_def karur_vysya_booking_def clean_samples
      rename_def rename_label_def)

text \<open>
  C10 as stated fails: the headers \<^verbatim>\<open>TXN DATE\<close> and \<^verbatim>\<open>TXN_DATE\<close> both normalize to
  \<^verbatim>\<open>TXNDATE\<close> and are both renamed to \<^verbatim>\<open>Transaction_Date\<close>. The chunk passes
  schema resolution, the required-header check and the bank-code lookup, its category is
  \<^verbatim>\<open>booking\<close>, and the date conversion raises on the repeated label: no row is
  projected or counted, nothing is published.
\<close>

theorem repeated_label_counterexample:
  "resolve ''karur_vysya'' ''booking'' = Some karur_vysya_booking \<and>
   headers_present karur_vysya_booking repeated_chunk \<and>
   map_of BANK_CODE_MAPPING ''karur_vysya'' = Some 40 \<and>
   length (rows repeated_chunk) = 1 \<and>
   process_dataframe_chunk (lib True) repeated_chunk ''karur_vysya'' ''booking'' empty_world
     = Inl ValueError \<and>
   published (process_dataframe_chunk (lib True) repeated_chunk ''karur_vysya'' ''booking'' empty_world)
     = None \<and>
   batch_of (lib True) karur_vysya_booking repeated_chunk ''karur_vysya'' ''booking'' 40 = []"
proof -
  have p: "prepare (lib True) karur_vysya_booking ''karur_vysya''
             (repeated_chunk\<lparr>columns := map clean_column_name (columns repeated_chunk)\<rparr>)
           = Inl ValueError"
    by (simp add: prepare_def Let_def repeated_chunk_facts(2) convert_column_to_datetime_def)
  have "process_dataframe_chunk (lib True) repeated_chunk ''karur_vysya'' ''booking'' empty_world
     = Inl ValueError"
    using short_chunk_facts(1) repeated_chunk_facts(1)
    by (simp add: process_dataframe_chunk_def headers_present_def p)
  moreover have "batch_of (lib True) karur_vysya_booking repeated_chunk ''karur_vysya'' ''booking'' 40 = []"
    by (simp add: batch_of_def p)
  moreover have "length (rows repeated_chunk) = 1"
    by (simp add: repeated_chunk_def)
  ultimately show ?thesis
    using short_chunk_facts(1) repeated_chunk_facts(1) booking_chunk_facts(5)
    by (simp add: published_def)
qed

text \<open>
  C1 (as amended). The transaction category is one value for the whole chunk. For a
  chunk whose labels stay pairwise distinct after normalization and renaming, that passes
  schema resolution and the required-header check and whose category is outside
  \<^verbatim>\<open>booking\<close>, \<^verbatim>\<open>refund\<close>, \<^verbatim>\<open>both\<close>, every row is counted failed and none is
  projected or stored: the published result is \<open>(0, n)\<close> for \<open>n\<close> rows.
\<close>

theorem unsupported_category_all_failed:
  assumes "resolve bank_name transaction_type = Some e"
    and "headers_present e df"
    and "distinct (final_labels e df)"
    and "transaction_type \<notin> set [''booking'', ''refund'', ''both'']"
  shows "process_dataframe_chunk L df bank_name transaction_type w =
           Inr (w\<lparr>cache := Some (0, length (rows df))\<rparr>)"
  by (rule process_dataframe_chunk_invalid [OF assms(1,2,4,3)])

theorem unsupported_category_all_failed_witness:
  "resolve ''icici'' ''cancelled'' = Some icici_both \<and>
   headers_present icici_both icici_chunk \<and>
   distinct (final_labels icici_both icici_chunk) \<and>
   ''cancelled'' \<notin> set [''booking'', ''refund'', ''both''] \<and>
   process_dataframe_chunk (lib True) icici_chunk ''icici'' ''cancelled'' empty_world
     = Inr \<lparr>cache = Some (0, 3), db = []\<rparr>"
proof -
  have v: "''cancelled'' \<notin> set [''booking'', ''refund'', ''both'']" by simp
  have "process_dataframe_chunk (lib True) icici_chunk ''icici'' ''cancelled'' empty_world
     = Inr \<lparr>cache = Some (0, 3), db = []\<rparr>"
    using unsupported_category_all_failed [OF icici_chunk_facts(1,3,8) v, of "lib True" empty_world]
    by (simp add: empty_world_def icici_chunk_facts(5))
  then show ?thesis
    using icici_chunk_facts(1,3,8) v by blast
qed

text \<open>
  C1 as stated fails: the rows carry no category the projector reads. A chunk of three
  rows whose third row has an unsupported value in a category column gives
  \<open>(3, 0)\<close>, and a chunk of three rows under an unsupported chunk category gives
  \<open>(0, 3)\<close>; neither gives \<open>(2, 1)\<close>.
\<close>

theorem per_row_category_counterexample:
  "row_get (columns booking_chunk) (rows booking_chunk ! 2) ''CATEGORY'' = Str ''cancelled'' \<and>
   published (process_dataframe_chunk (lib True) booking_chunk ''karur_vysya'' ''booking'' empty_world)
     = Some (3, 0) \<and>
   published (process_dataframe_chunk (lib True) icici_chunk ''icici'' ''cancelled'' empty_world)
     = Some (0, 3)"
proof -
  have v: "''booking'' \<in> set [''booking'', ''refund'', ''both'']" by simp
  have n: "''cancelled'' \<notin> set [''booking'', ''refund'', ''both'']" by simp
  have "row_get (columns booking_chunk) (rows booking_chunk ! 2) ''CATEGORY'' = Str ''cancelled''"
    by (simp add: booking_chunk_def row_get_def)
  moreover have "published (process_dataframe_chunk (lib True) booking_chunk ''karur_vysya'' ''booking'' empty_world)
     = Some (3, 0)"
    by (simp add: process_dataframe_chunk_valid [OF short_chunk_facts(1) booking_chunk_facts(1) v booking_chunk_facts(5,6)]
        booking_chunk_facts(3,4) published_def lib_simps)
  moreover have "published (process_dataframe_chunk (lib True) icici_chunk ''icici'' ''cancelled'' empty_world)
     = Some (0, 3)"
    by (simp add: process_dataframe_chunk_invalid [OF icici_chunk_facts(1,3) n icici_chunk_facts(8)]
        icici_chunk_facts(5) published_def)
  ultimately show ?thesis by blast
qed

text \<open>
  C2: the code at a failing input. Storage rejects the batch of a three-row chunk; the
  failure is caught and nothing is stored, but the published result is \<open>(3, 3)\<close>:
  the three rows stay counted as successful besides being counted as failed.
\<close>

theorem commit_failure_counts:
  "published (process_dataframe_chunk (lib False) booking_chunk ''karur_vysya'' ''booking'' empty_world)
     = Some (3, 3) \<and>
   stored_count (process_dataframe_chunk (lib False) booking_chunk ''karur_vysya'' ''booking'' empty_world)
     = Some 0"
proof -
  have v: "''booking'' \<in> set [''booking'', ''refund'', ''both'']" by simp
  show ?thesis
    by (simp add: process_dataframe_chunk_valid [OF short_chunk_facts(1) booking_chunk_facts(1) v booking_chunk_facts(5,6)]
        booking_chunk_facts(3,4) published_def stored_count_def lib_simps empty_world_def)
qed

section \<open>The merchant identifier\<close>






section \<open>Cells of the prepared frame\<close>

lemma map_of_zip_upd_cells:
  "map_of (zip cols (upd_cells l f cols row)) c =
     (if c = l then map_option f (map_of (zip cols row) c) else map_of (zip cols row) c)"
proof (induction cols arbitrary: row)
  case Nil
  show ?case by simp
next
  case (Cons a cols)
  then show ?case by (cases row) auto
qed

lemma row_get_upd_cells:
  "row_get cols (upd_cells l f cols row) c =
     (if c = l then (case map_of (zip cols row) c of Some v \<Rightarrow> f v | None \<Rightarrow> PNone)
      else row_get cols row c)"
  by (simp add: row_get_def map_of_zip_upd_cells split: option.splits)

lemma length_upd_cells [simp]: "length (upd_cells l f cols row) = length row"
proof (induction cols arbitrary: row)
  case Nil
  show ?case by simp
next
  case (Cons a cols)
  then show ?case by (cases row) auto
qed

lemma rectangular_map_column: "rectangular df \<Longrightarrow> rectangular (map_column f l df)"
  by (simp add: rectangular_def map_column_def list_all_iff)



lemma map_of_zip_absent: "l \<notin> set cols \<Longrightarrow> map_of (zip cols row) l = None"
  by (auto simp: map_of_eq_None_iff dest: set_zip_leftD)


lemma map_of_zip_present:
  assumes "length row = length cols"
  shows "(map_of (zip cols row) c = None) = (c \<notin> set cols)"
proof -
  have "fst ` set (zip cols row) = set (map fst (zip cols row))" by simp
  also have "\<dots> = set cols" using assms by (simp only: map_fst_zip)
  finally show ?thesis by (simp only: map_of_eq_None_iff)
qed

lemma row_get_append:
  assumes "length row = length cols"
  shows "row_get (cols @ [l']) (row @ [v]) c =
           (if c \<in> set cols then row_get cols row c else if c = l' then v else PNone)"
proof (cases "map_of (zip cols row) c")
  case None
  with map_of_zip_present [OF assms, of c] have "c \<notin> set cols" by simp
  with assms show ?thesis
    by (simp add: row_get_def map_add_def map_of_zip_absent)
next
  case (Some u)
  with map_of_zip_present [OF assms, of c] have "c \<in> set cols" by simp
  with Some assms show ?thesis
    by (simp add: row_get_def zip_append map_add_def)
qed


lemma rectangular_rename: "rectangular df \<Longrightarrow> rectangular (rename cm df)"
  by (simp add: rectangular_def rename_def)

lemma rectangular_columns_update:
  "rectangular df \<Longrightarrow> rectangular (df\<lparr>columns := map f (columns df)\<rparr>)"
  by (simp add: rectangular_def)

lemma rectangular_convert:
  "rectangular df \<Longrightarrow> rectangular (to_datetime_column L df l)"
  "rectangular df \<Longrightarrow> rectangular (to_numeric_column L df l)"
  by (simp_all add: to_datetime_column_def to_numeric_column_def
      rectangular_map_column)







lemma rectangular_dated: "rectangular df \<Longrightarrow> rectangular (dated L e df)"
  by (simp add: dated_def Let_def rectangular_convert rectangular_rename)







section \<open>Fields of the emitted records\<close>

lemma map_of_map_values:
  "map_of (map (\<lambda>(k, v). (k, g k v)) d) f = map_option (g f) (map_of d f)"
  by (induction d) auto

lemma field_of_projected:
  "field_of (projected cols b t i row) f =
     (if f \<in> set canonical_fields
      then (let v = field_of (transaction_data_of cols b t i row) f
            in if f \<in> set datetime_fields \<and> v = NaT then PNone else v)
      else PNone)"
proof -
  have "(map_of (transaction_data_of cols b t i row) f = None) = (f \<notin> set canonical_fields)"
    using keys_transaction_data_of [of cols b t i row]
    by (metis map_of_eq_None_iff set_map)
  then show ?thesis
    by (auto simp: field_of_def projected_def map_of_map_values Let_def split: option.splits)
qed









lemma field_of_data_row:
  "field_of (transaction_data_of cols b t i row) ''Transaction_Date'' = row_get cols row ''Transaction_Date''"
  "field_of (transaction_data_of cols b t i row) ''Settlement_Date'' = row_get cols row ''Settlement_Date''"
  "field_of (transaction_data_of cols b t i row) ''Payable_Merchant'' = row_get cols row ''Payable_Merchant''"
  "field_of (transaction_data_of cols b t i row) ''Credit_Debit_Amount'' = row_get cols row ''CREDIT_DEBIT_AMOUNT''"
  by (simp_all add: field_of_def transaction_data_of_def Let_def)



lemma field_of_projected_other:
  "f \<notin> set datetime_fields \<Longrightarrow> f \<in> set canonical_fields \<Longrightarrow>
   field_of (projected cols b t i row) f = field_of (transaction_data_of cols b t i row) f"
  by (simp add: field_of_projected Let_def)



lemma payable_not_date:
  "''Payable_Merchant'' \<notin> set datetime_fields" "''Payable_Merchant'' \<in> set canonical_fields"
  "''Credit_Debit_Amount'' \<notin> set datetime_fields" "''Credit_Debit_Amount'' \<in> set canonical_fields"
  by (simp_all add: datetime_fields_def canonical_fields_def)







section \<open>The signed amount\<close>

lemma row_get_upd_cells_present:
  assumes "length row = length cols" "l \<in> set cols"
  shows "row_get cols (upd_cells l f cols row) c =
           (if c = l then f (row_get cols row c) else row_get cols row c)"
proof -
  from map_of_zip_present [OF assms(1), of l] assms(2)
  obtain v where "map_of (zip cols row) l = Some v" by auto
  then show ?thesis by (simp add: row_get_def map_of_zip_upd_cells)
qed

lemma map_of_zip_rename:
  "distinct (map f cols) \<Longrightarrow> l \<in> set cols \<Longrightarrow>
   map_of (zip (map f cols) row) (f l) = map_of (zip cols row) l"
proof (induction cols arbitrary: row)
  case Nil
  then show ?case by simp
next
  case (Cons a cols)
  show ?case
  proof (cases row)
    case Nil
    then show ?thesis by simp
  next
    case (Cons v vs)
    show ?thesis
    proof (cases "a = l")
      case True
      with Cons show ?thesis by simp
    next
      case False
      with Cons.prems have l: "l \<in> set cols" by simp
      with Cons.prems(1) have "f a \<noteq> f l" by auto
      with Cons False Cons.IH [of vs] Cons.prems(1) l show ?thesis by simp
    qed
  qed
qed

lemma row_get_rename:
  "distinct (map f cols) \<Longrightarrow> l \<in> set cols \<Longrightarrow>
   row_get (map f cols) row (f l) = row_get cols row l"
  by (simp add: row_get_def map_of_zip_rename)

lemma nth_rows_map_column:
  "i < length (rows df) \<Longrightarrow>
   rows (map_column f l df) ! i = upd_cells l f (columns df) (rows df ! i)"
  by (simp add: map_column_def)

lemma nth_rows_convert:
  "i < length (rows df) \<Longrightarrow>
   rows (to_datetime_column L df l) ! i =
     upd_cells l (cell_to_datetime L (column_cells df l)) (columns df) (rows df ! i)"
  "i < length (rows df) \<Longrightarrow>
   rows (to_numeric_column L df l) ! i =
     upd_cells l (coerce_amount L) (columns df) (rows df ! i)"
  by (simp_all add: to_datetime_column_def to_numeric_column_def nth_rows_map_column)

lemma row_get_convert_other:
  assumes "i < length (rows df)" "l \<noteq> l'"
    and "D = (if l' \<in> set (columns df) then to_datetime_column L df l' else df)"
  shows "row_get (columns D) (rows D ! i) l = row_get (columns df) (rows df ! i) l"
  using assms by (simp add: nth_rows_convert row_get_upd_cells)

lemma columns_dated: "columns (dated L e df) = map (rename_label (column_mapping e)) (columns df)"
  by (simp add: dated_def Let_def)

lemma length_rows_dated: "length (rows (dated L e df)) = length (rows df)"
  by (simp add: dated_def Let_def)

lemma row_get_dated_other:
  assumes "i < length (rows df)" "l \<noteq> ''Transaction_Date''" "l \<noteq> ''Settlement_Date''"
  shows "row_get (columns (dated L e df)) (rows (dated L e df) ! i) l =
           row_get (map (rename_label (column_mapping e)) (columns df)) (rows df ! i) l"
proof -
  let ?d1 = "rename (column_mapping e) df"
  let ?d2 = "if ''Transaction_Date'' \<in> set (columns ?d1)
             then to_datetime_column L ?d1 ''Transaction_Date'' else ?d1"
  have 1: "i < length (rows ?d1)" using assms(1) by simp
  have 2: "i < length (rows ?d2)" using assms(1) by simp
  have "row_get (columns (dated L e df)) (rows (dated L e df) ! i) l =
          row_get (columns ?d2) (rows ?d2 ! i) l"
    unfolding dated_def Let_def by (rule row_get_convert_other [OF 2 assms(3)]) simp
  also have "\<dots> = row_get (columns ?d1) (rows ?d1 ! i) l"
    by (rule row_get_convert_other [OF 1 assms(2)]) simp
  finally show ?thesis by simp
qed

lemma amount_step_icici:
  assumes "rectangular df" "''Payable_Merchant'' \<in> set (columns df)"
    and "''CREDIT_DEBIT_AMOUNT'' \<notin> set (columns df)" "i < length (rows df)"
  shows "row_get (columns (amount_step L ''icici'' df)) (rows (amount_step L ''icici'' df) ! i)
           ''Payable_Merchant''
         = fillna0 (coerce_amount L (row_get (columns df) (rows df ! i) ''Payable_Merchant''))"
    and "row_get (columns (amount_step L ''icici'' df)) (rows (amount_step L ''icici'' df) ! i)
           ''CREDIT_DEBIT_AMOUNT''
         = credit_debit (fillna0 (coerce_amount L
             (row_get (columns df) (rows df ! i) ''Payable_Merchant'')))"
proof -
  let ?cols = "columns df"
  let ?r0 = "rows df ! i"
  let ?d4 = "to_numeric_column L df ''Payable_Merchant''"
  let ?d5 = "map_column fillna0 ''Payable_Merchant'' ?d4"
  let ?r5 = "upd_cells ''Payable_Merchant'' fillna0 ?cols
               (upd_cells ''Payable_Merchant'' (coerce_amount L) ?cols ?r0)"
  let ?v = "credit_debit (row_get ?cols ?r5 ''Payable_Merchant'')"
  from assms(1,4) have len: "length ?r0 = length ?cols"
    by (simp add: rectangular_def list_all_iff)
  have r5: "rows ?d5 ! i = ?r5"
    using assms(4) by (simp add: nth_rows_map_column nth_rows_convert)
  have g5: "row_get ?cols ?r5 ''Payable_Merchant''
              = fillna0 (coerce_amount L (row_get ?cols ?r0 ''Payable_Merchant''))"
    using len assms(2) by (simp add: row_get_upd_cells_present)
  have cells: "column_cells ?d5 ''Payable_Merchant'' ! i = row_get ?cols ?r5 ''Payable_Merchant''"
    using assms(4) r5 by (simp add: column_cells_def)
  have step: "amount_step L ''icici'' df =
      assign_column ''CREDIT_DEBIT_AMOUNT'' (map credit_debit (column_cells ?d5 ''Payable_Merchant'')) ?d5"
    using assms(2) by (simp add: amount_step_def Let_def)
  have cols: "columns (amount_step L ''icici'' df) = ?cols @ [''CREDIT_DEBIT_AMOUNT'']"
    using assms(3) by (simp add: step columns_assign_column)
  have row: "rows (amount_step L ''icici'' df) ! i = ?r5 @ [?v]"
    using assms(3,4) r5 cells by (simp add: step assign_column_def)
  have len5: "length ?r5 = length ?cols" using len by simp
  show "row_get (columns (amount_step L ''icici'' df)) (rows (amount_step L ''icici'' df) ! i)
           ''Payable_Merchant''
         = fillna0 (coerce_amount L (row_get (columns df) (rows df ! i) ''Payable_Merchant''))"
    unfolding cols row using assms(2) g5 by (simp add: row_get_append [OF len5])
  show "row_get (columns (amount_step L ''icici'' df)) (rows (amount_step L ''icici'' df) ! i)
           ''CREDIT_DEBIT_AMOUNT''
         = credit_debit (fillna0 (coerce_amount L
             (row_get (columns df) (rows df ! i) ''Payable_Merchant'')))"
    unfolding cols row using assms(3) g5 by (simp add: row_get_append [OF len5])
qed

lemma resolve_icici: "resolve ''icici'' t = Some icici_both"
  by (simp add: resolve_registry registry_entry_def BANK_MAPPINGS_def split: option.splits)

lemma fillna0_coerce_amount:
  "fillna0 (coerce_amount L v) = Num (case coerce_amount L v of Num x \<Rightarrow> x | _ \<Rightarrow> 0)"
  by (simp add: fillna0_def coerce_amount_def cell_to_numeric_def str_replace_comma_def
      split: pyval.splits option.splits)

lemma credit_debit_Num:
  "credit_debit (Num a) = (if a > 0 then Str ''CREDIT'' else if a < 0 then Str ''DEBIT'' else PNone)"
  by (simp add: credit_debit_def)

lemma icici_labels:
  assumes "headers_present icici_both df"
  shows "''NETAMT'' \<in> set (map clean_column_name (columns df))"
    and "rename_label (column_mapping icici_both) ''NETAMT'' = ''Payable_Merchant''"
    and "''Payable_Merchant'' \<in> set (final_labels icici_both df)"
    and "''CREDIT_DEBIT_AMOUNT'' \<notin> set (final_labels icici_both df)"
proof -
  show n: "''NETAMT'' \<in> set (map clean_column_name (columns df))"
    using assms by (simp add: headers_present_def icici_both_def clean_samples)
  show r: "rename_label (column_mapping icici_both) ''NETAMT'' = ''Payable_Merchant''"
    by (simp add: rename_label_def icici_both_def)
  from n r show "''Payable_Merchant'' \<in> set (final_labels icici_both df)"
    unfolding final_labels_def by (metis image_eqI set_map)
  show "''CREDIT_DEBIT_AMOUNT'' \<notin> set (final_labels icici_both df)"
  proof
    assume "''CREDIT_DEBIT_AMOUNT'' \<in> set (final_labels icici_both df)"
    then obtain c where c: "''CREDIT_DEBIT_AMOUNT'' =
        rename_label (column_mapping icici_both) (clean_column_name c)"
      by (auto simp: final_labels_def)
    have "''CREDIT_DEBIT_AMOUNT'' \<notin> snd ` set (column_mapping icici_both)"
      by (simp add: icici_both_def)
    with c rename_label_cases [of "column_mapping icici_both" "clean_column_name c"]
    have "''CREDIT_DEBIT_AMOUNT'' = clean_column_name c" by auto
    with clean_no_underscore [of c] show False by (metis list.set_intros(1,2))
  qed
qed

text \<open>
  C6. For the signed-amount bank \<^verbatim>\<open>icici\<close>, in the record of every row the payable
  amount is the coerced amount of the row's \<^verbatim>\<open>NET AMT\<close> cell with a missing or
  unparseable amount replaced by zero, and the credit/debit label is \<^verbatim>\<open>CREDIT\<close> when
  that amount is strictly positive, \<^verbatim>\<open>DEBIT\<close> when it is strictly negative, and
  \<^verbatim>\<open>None\<close> when it is zero, which includes the unparseable amounts.
\<close>

theorem signed_amount_label:
  assumes "headers_present icici_both df"
    and "well_formed icici_both df"
    and "transaction_type \<in> set [''booking'', ''refund'', ''both'']"
    and "i < length (rows df)"
  shows "let raw = row_get (map clean_column_name (columns df)) (rows df ! i) ''NETAMT'';
             a = (case coerce_amount L raw of Num x \<Rightarrow> x | _ \<Rightarrow> 0);
             r = batch_of L icici_both df ''icici'' transaction_type 102 ! i
         in field_of r ''Payable_Merchant'' = Num a \<and>
            field_of r ''Credit_Debit_Amount'' =
              (if a > 0 then Str ''CREDIT'' else if a < 0 then Str ''DEBIT'' else PNone)"
proof -
  let ?df' = "df\<lparr>columns := map clean_column_name (columns df)\<rparr>"
  let ?D = "dated L icici_both ?df'"
  let ?P = "prepared L icici_both ''icici'' df"
  let ?raw = "row_get (map clean_column_name (columns df)) (rows df ! i) ''NETAMT''"
  let ?a = "case coerce_amount L ?raw of Num x \<Rightarrow> x | _ \<Rightarrow> 0"
  have P: "?P = amount_step L ''icici'' ?D"
    by (simp add: prepared_def)
  have colsD: "columns ?D = final_labels icici_both df"
    by (simp add: columns_dated final_labels_def)
  from assms(2) have dist: "distinct (final_labels icici_both df)" and rect: "rectangular df"
    by (simp_all add: well_formed_def)
  have rectD: "rectangular ?D"
    by (rule rectangular_dated) (rule rectangular_columns_update [OF rect])
  have iD: "i < length (rows ?D)" using assms(4) by (simp add: length_rows_dated)
  have pm: "''Payable_Merchant'' \<in> set (columns ?D)"
    using icici_labels(3) [OF assms(1)] by (simp only: colsD)
  have cda: "''CREDIT_DEBIT_AMOUNT'' \<notin> set (columns ?D)"
    using icici_labels(4) [OF assms(1)] by (simp only: colsD not_False_eq_True)
  have "row_get (columns ?D) (rows ?D ! i) ''Payable_Merchant'' =
          row_get (map (rename_label (column_mapping icici_both)) (columns ?df')) (rows ?df' ! i)
            ''Payable_Merchant''"
    using assms(4) by (intro row_get_dated_other) simp_all
  also have "\<dots> = row_get (map (rename_label (column_mapping icici_both))
                         (map clean_column_name (columns df))) (rows df ! i)
                       (rename_label (column_mapping icici_both) ''NETAMT'')"
    by (simp add: icici_labels(2) [OF assms(1)])
  also have "\<dots> = ?raw"
    using dist icici_labels(1) [OF assms(1)]
    by (intro row_get_rename) (simp_all add: final_labels_def)
  finally have raw: "row_get (columns ?D) (rows ?D ! i) ''Payable_Merchant'' = ?raw" .
  have g1: "row_get (columns ?P) (rows ?P ! i) ''Payable_Merchant'' = Num ?a"
    unfolding P amount_step_icici(1) [OF rectD pm cda iD] raw
    by (rule fillna0_coerce_amount)
  have g2: "row_get (columns ?P) (rows ?P ! i) ''CREDIT_DEBIT_AMOUNT'' = credit_debit (Num ?a)"
    unfolding P amount_step_icici(2) [OF rectD pm cda iD] raw
    by (simp only: fillna0_coerce_amount)
  have iP: "i < length (rows ?P)" using assms(4) by (simp add: length_rows_prepared)
  have r: "batch_of L icici_both df ''icici'' transaction_type 102 ! i =
             projected (columns ?P) ''icici'' transaction_type 102 (rows ?P ! i)"
    using iP by (simp add: batch_of_valid [OF resolve_icici assms(3) dist])
  have f1: "field_of (batch_of L icici_both df ''icici'' transaction_type 102 ! i) ''Payable_Merchant''
              = Num ?a"
    by (simp only: r field_of_projected_other payable_not_date field_of_data_row g1 simp_thms)
  have f2: "field_of (batch_of L icici_both df ''icici'' transaction_type 102 ! i) ''Credit_Debit_Amount''
              = credit_debit (Num ?a)"
    by (simp only: r field_of_projected_other payable_not_date field_of_data_row g2 simp_thms)
  from f1 f2 show ?thesis
    by (simp only: Let_def credit_debit_Num simp_thms)
qed

lemma icici_chunk_amounts:
  "row_get (map clean_column_name (columns icici_chunk)) (rows icici_chunk ! 0) ''NETAMT'' = Str ''50''"
  "row_get (map clean_column_name (columns icici_chunk)) (rows icici_chunk ! Suc 0) ''NETAMT'' = Str ''-50''"
  "row_get (map clean_column_name (columns icici_chunk)) (rows icici_chunk ! 2) ''NETAMT'' = Str ''abc''"
  by (simp_all add: icici_chunk_def clean_samples row_get_def)

lemma lib_amounts:
  "coerce_amount (lib a) (Str ''50'') = Num 50"
  "coerce_amount (lib a) (Str ''-50'') = Num (- 50)"
  "coerce_amount (lib a) (Str ''abc'') = NaN"
  by (simp_all add: coerce_amount_def str_replace_comma_def cell_to_numeric_def lib_def
      decimal_literal_def unsigned_decimal_def digit_of_def)

theorem signed_amount_label_witness:
  "headers_present icici_both icici_chunk \<and>
   well_formed icici_both icici_chunk \<and>
   ''refund'' \<in> set [''booking'', ''refund'', ''both''] \<and>
   2 < length (rows icici_chunk) \<and>
   field_of (batch_of (lib True) icici_both icici_chunk ''icici'' ''refund'' 102 ! 0)
     ''Credit_Debit_Amount'' = Str ''CREDIT'' \<and>
   field_of (batch_of (lib True) icici_both icici_chunk ''icici'' ''refund'' 102 ! 1)
     ''Credit_Debit_Amount'' = Str ''DEBIT'' \<and>
   field_of (batch_of (lib True) icici_both icici_chunk ''icici'' ''refund'' 102 ! 2)
     ''Credit_Debit_Amount'' = PNone \<and>
   field_of (batch_of (lib True) icici_both icici_chunk ''icici'' ''refund'' 102 ! 2)
     ''Payable_Merchant'' = Num 0"
proof -
  have v: "''refund'' \<in> set [''booking'', ''refund'', ''both'']" by simp
  have n: "0 < length (rows icici_chunk)" "1 < length (rows icici_chunk)"
    "2 < length (rows icici_chunk)"
    by (simp_all add: icici_chunk_facts(5))
  note t = signed_amount_label [OF icici_chunk_facts(3,4) v, of _ "lib True"]
  have 0: "field_of (batch_of (lib True) icici_both icici_chunk ''icici'' ''refund'' 102 ! 0)
     ''Credit_Debit_Amount'' = Str ''CREDIT''"
    using t [OF n(1)] by (simp add: Let_def icici_chunk_amounts lib_amounts)
  have 1: "field_of (batch_of (lib True) icici_both icici_chunk ''icici'' ''refund'' 102 ! 1)
     ''Credit_Debit_Amount'' = Str ''DEBIT''"
    using t [OF n(2)] by (simp add: Let_def icici_chunk_amounts lib_amounts)
  have 2: "field_of (batch_of (lib True) icici_both icici_chunk ''icici'' ''refund'' 102 ! 2)
     ''Credit_Debit_Amount'' = PNone"
    "field_of (batch_of (lib True) icici_both icici_chunk ''icici'' ''refund'' 102 ! 2)
     ''Payable_Merchant'' = Num 0"
    using t [OF n(3)] by (simp_all add: Let_def icici_chunk_amounts lib_amounts)
  from 0 1 2 n(3) v icici_chunk_facts(3,4) show ?thesis by blast
qed

end
